theory Spec2Isabelle
  imports Main "HOL-Library.Word" "HOL-Library.AList"
begin

unbundle bit_operations_syntax

section \<open>Values of the Go program\<close>

text \<open>
  Go's \<^verbatim>\<open>int32\<close> is a 32-bit word read in two's complement: \<open>+\<close> and \<open>-\<close> wrap,
  and the comparisons of the source are the signed ones (\<open><s\<close>, \<open>\<le>s\<close>).
  Go's \<^verbatim>\<open>int\<close> (weights, replica counts, loop indices) has 64 bits on the platforms
  the program is built for. Its values are kept as \<open>int\<close>, and the one product the
  program computes with them wraps around as the machine's does.
\<close>

type_synonym int32 = "32 word"

definition MaxInt32 :: int32 where
  "MaxInt32 = 2147483647"

definition wrap64 :: "int \<Rightarrow> int" where
  "wrap64 x = (x + 2 ^ 63) mod 2 ^ 64 - 2 ^ 63"

definition mul_int :: "int \<Rightarrow> int \<Rightarrow> int" where
  "mul_int a b = wrap64 (a * b)"

text \<open>
  Go errors. \<open>Error\<close> is \<^verbatim>\<open>errors.New\<close>, \<open>Wrap\<close> is \<^verbatim>\<open>fmt.Errorf("...: %w", err)\<close>,
  \<open>RedisErrNil\<close> is redigo's \<^verbatim>\<open>redis.ErrNil\<close>, \<open>RedisReplyError\<close> an error reply of
  the server. \<open>GoPanic\<close> is not an error value: it stands for a run-time panic, which
  unwinds through every caller of this package (none of them recovers it).
\<close>

datatype error =
    Error string
  | Wrap string error
  | RedisErrNil
  | RedisReplyError string
  | GoPanic string

fun errors_Is :: "error \<Rightarrow> error \<Rightarrow> bool" where
  "errors_Is (Wrap m e) target = (Wrap m e = target \<or> errors_Is e target)"
| "errors_Is e target = (e = target)"

section \<open>String formatting\<close>

definition digit_char :: "nat \<Rightarrow> char" where
  "digit_char d = ''0123456789'' ! d"

function showNat :: "nat \<Rightarrow> string" where
  "showNat n = (if n < 10 then [digit_char n] else showNat (n div 10) @ [digit_char (n mod 10)])"
  by pat_completeness auto
termination
  by (relation "measure (\<lambda>n. n)") auto

declare showNat.simps [simp del]

definition showInt :: "int \<Rightarrow> string" where
  "showInt i = (if i < 0 then CHR ''-'' # showNat (nat (- i)) else showNat (nat i))"

text \<open>
  \<^verbatim>\<open>fmt.Sprintf("%d_%d", nodeID, index)\<close> with \<^verbatim>\<open>nodeID\<close> a string and \<^verbatim>\<open>index\<close> an
  int. The verb \<^verbatim>\<open>%d\<close> does not apply to a string operand; package fmt then prints
  \<^verbatim>\<open>%!d(string=<value>)\<close> in its place. The second \<^verbatim>\<open>%d\<close> prints the int in decimal.
\<close>

definition Sprintf_d_d :: "string \<Rightarrow> int \<Rightarrow> string" where
  "Sprintf_d_d s i = ''%!d(string='' @ s @ '')'' @ ''_'' @ showInt i"

text \<open>\<^verbatim>\<open>strings.LastIndex(s, "_")\<close>: the index of the last occurrence, or \<open>-1\<close>.\<close>

fun LastIndex :: "string \<Rightarrow> char \<Rightarrow> int" where
  "LastIndex [] c = -1"
| "LastIndex (x # xs) c =
     (let r = LastIndex xs c in
      if r \<noteq> -1 then r + 1 else if x = c then 0 else -1)"

section \<open>The router's pure helpers (consistent\_hash.go, migrate)\<close>

definition getValidWeight :: "int \<Rightarrow> int" where
  "getValidWeight weight =
     (if weight \<le> 0 then 1 else if weight \<ge> 10 then 10 else weight)"

definition getRawNodeKey :: "string \<Rightarrow> int \<Rightarrow> string" where
  "getRawNodeKey nodeID index = Sprintf_d_d nodeID index"

text \<open>
  \<^verbatim>\<open>rawNodeKey[:index]\<close> panics when \<^verbatim>\<open>index\<close> is \<open>-1\<close> (slice bounds out of range).
\<close>

definition getNodeID :: "string \<Rightarrow> error + string" where
  "getNodeID rawNodeKey =
     (let index = LastIndex rawNodeKey CHR ''_'' in
      if index < 0 then Inl (GoPanic ''slice bounds out of range'')
      else Inr (take (nat index) rawNodeKey))"

definition incrScore :: "int32 \<Rightarrow> int32" where
  "incrScore score = (if score = MaxInt32 - 1 then 0 else score + 1)"

definition decrScore :: "int32 \<Rightarrow> int32" where
  "decrScore score = (if score = 0 then MaxInt32 - 1 else score - 1)"

section \<open>The HashRing interface (hash\_ring.go), the encryptor and the migrator\<close>

text \<open>
  The router is written against the interface \<^verbatim>\<open>HashRing\<close>; an implementation carries
  its own state \<open>'s\<close>. A query (\<open>Ceiling\<close>, \<open>Floor\<close>, \<open>Node\<close>, \<open>Nodes\<close>, \<open>DataKeys\<close>)
  reads the state and returns a value or an error; every other operation returns its
  error (\<open>None\<close> is Go's \<^verbatim>\<open>nil\<close>) together with the state it leaves, also when it
  fails. A Go \<^verbatim>\<open>map[string]struct{}\<close> is a set of strings, a \<^verbatim>\<open>map[string]int\<close> a map.
\<close>

record 's HashRing =
  Lock :: "'s \<Rightarrow> int \<Rightarrow> error option \<times> 's"
  Unlock :: "'s \<Rightarrow> error option \<times> 's"
  Add :: "'s \<Rightarrow> int32 \<Rightarrow> string \<Rightarrow> error option \<times> 's"
  Ceiling :: "'s \<Rightarrow> int32 \<Rightarrow> error + int32"
  Floor :: "'s \<Rightarrow> int32 \<Rightarrow> error + int32"
  Rem :: "'s \<Rightarrow> int32 \<Rightarrow> string \<Rightarrow> error option \<times> 's"
  Nodes :: "'s \<Rightarrow> error + (string \<rightharpoonup> int)"
  AddNodeToReplica :: "'s \<Rightarrow> string \<Rightarrow> int \<Rightarrow> error option \<times> 's"
  DeleteNodeToReplica :: "'s \<Rightarrow> string \<Rightarrow> error option \<times> 's"
  Node :: "'s \<Rightarrow> int32 \<Rightarrow> error + string list"
  DataKeys :: "'s \<Rightarrow> string \<Rightarrow> error + string set"
  AddNodeToDataKeys :: "'s \<Rightarrow> string \<Rightarrow> string set \<Rightarrow> error option \<times> 's"
  DeleteNodeToDataKeys :: "'s \<Rightarrow> string \<Rightarrow> string set \<Rightarrow> error option \<times> 's"

type_synonym Encryptor = "string \<Rightarrow> int32"

text \<open>
  A call of the user's migrator either returns (an error or \<^verbatim>\<open>nil\<close>) or panics with a
  value. \<^verbatim>\<open>c.migrator == nil\<close> is \<open>None\<close>.
\<close>

datatype task_outcome = TaskReturns "error option" | TaskPanics string

type_synonym Migrator = "string set \<Rightarrow> string \<Rightarrow> string \<Rightarrow> task_outcome"

text \<open>
  The options record is declared in a file that is not part of the sources at hand; the
  router reads these two fields of it.
\<close>

record ConsistentHashOptions =
  lockExpireSeconds :: int
  replicas :: int

text \<open>
  What a call of the router does to its caller: it returns, or the process ends in
  \<^verbatim>\<open>log.Fatal\<close> (which prints and calls \<^verbatim>\<open>os.Exit(1)\<close>; deferred calls do not run).
  \<open>ProcessExit\<close> carries the recovered panic values, one of which was logged.
\<close>

datatype 'a outcome = Returns 'a | ProcessExit "string list"

section \<open>The migration planner (migrate)\<close>

function getvaildNextNode ::
  "'s HashRing \<Rightarrow> int32 \<Rightarrow> string \<Rightarrow> int32 set \<Rightarrow> 's \<Rightarrow> error + string" where
  "getvaildNextNode hr score nodeID ranged s =
     (case Ceiling hr s (incrScore score) of
        Inl err \<Rightarrow> Inl err
      | Inr nextScore \<Rightarrow>
          if nextScore = - 1 then Inr ''''
          else if nextScore \<in> ranged then Inr ''''
          else (case Node hr s nextScore of
                  Inl err \<Rightarrow> Inl err
                | Inr nextNodes \<Rightarrow>
                    if length nextNodes = 0 then Inl (Error ''next node empty'')
                    else (case getNodeID (nextNodes ! 0) of
                            Inl p \<Rightarrow> Inl p
                          | Inr nextNode \<Rightarrow>
                              if nextNode \<noteq> nodeID then Inr nextNode
                              else if length nextNodes > 1 then getNodeID (nextNodes ! 1)
                              else getvaildNextNode hr nextScore nodeID (insert score ranged) s)))"
  by pat_completeness auto
termination
proof (relation "measure (\<lambda>(hr, score, nodeID, ranged, s).
          2 * card (- ranged) + (if score \<in> ranged then 1 else 0))", goal_cases)
  case 1
  show ?case by simp
next
  case (2 hr score nodeID ranged s nextScore nextNodes nextNode)
  have fin: "finite (- ranged)" by simp
  show ?case
  proof (cases "score \<in> ranged")
    case True
    with 2 show ?thesis by (simp add: insert_absorb)
  next
    case False
    then have "- insert score ranged \<subset> - ranged" by auto
    then have "card (- insert score ranged) < card (- ranged)"
      using fin by (rule psubset_card_mono [rotated])
    with False show ?thesis by simp
  qed
qed

declare getvaildNextNode.simps [simp del]

text \<open>
  The test of the loop of \<^verbatim>\<open>migrateIn\<close> on one data key, whose score is \<open>p\<close>;
  \<open>lastScore\<close> and \<open>virtualScore\<close> are the values after the two pattern shifts.
\<close>

definition migrateIn_moves :: "bool \<Rightarrow> bool \<Rightarrow> int32 \<Rightarrow> int32 \<Rightarrow> int32 \<Rightarrow> bool" where
  "migrateIn_moves patternOne patternTwo lastScore virtualScore p =
     (let d1 = (if patternOne \<and> lastScore + MaxInt32 <s p then p - MaxInt32 else p);
          d2 = (if patternTwo then d1 - MaxInt32 else d1)
      in \<not> (d2 \<le>s lastScore \<or> virtualScore <s d2))"

text \<open>
  \<^verbatim>\<open>migrateIn\<close> returns \<^verbatim>\<open>(from, to, datas, err)\<close>; a bare \<^verbatim>\<open>return\<close> gives the zero
  values. The error of \<^verbatim>\<open>DataKeys\<close> is assigned and never read: on failure the
  key set is \<^verbatim>\<open>nil\<close> and the loop runs over nothing.
\<close>

definition migrateIn ::
  "'s HashRing \<Rightarrow> Encryptor \<Rightarrow> Migrator option \<Rightarrow> int32 \<Rightarrow> string \<Rightarrow> 's
     \<Rightarrow> (error + string \<times> string \<times> string set) \<times> 's" where
  "migrateIn hr enc migrator virtualScore nodeID s =
     (if migrator = None then (Inr ('''', '''', {}), s)
      else case Node hr s virtualScore of
        Inl err \<Rightarrow> (Inl err, s)
      | Inr nodes \<Rightarrow>
        if length nodes > 1 then (Inr ('''', '''', {}), s)
        else case Floor hr s (decrScore virtualScore) of
          Inl err \<Rightarrow> (Inl err, s)
        | Inr lastScore \<Rightarrow>
          if lastScore = - 1 \<or> lastScore = virtualScore then (Inr ('''', '''', {}), s)
          else case Ceiling hr s (incrScore virtualScore) of
            Inl err \<Rightarrow> (Inl err, s)
          | Inr nextScore \<Rightarrow>
            if nextScore = - 1 \<or> nextScore = virtualScore then (Inr ('''', '''', {}), s)
            else
              let patternOne = virtualScore <s lastScore;
                  patternTwo = nextScore <s virtualScore;
                  lastScore1 = (if patternOne then lastScore - MaxInt32 else lastScore);
                  virtualScore2 = (if patternTwo then virtualScore - MaxInt32 else virtualScore);
                  lastScore2 = (if patternTwo then lastScore1 - MaxInt32 else lastScore1)
              in case Node hr s nextScore of
                Inl err \<Rightarrow> (Inl err, s)
              | Inr nextNodes \<Rightarrow>
                if length nextNodes = 0 then (Inr ('''', '''', {}), s)
                else case getNodeID (nextNodes ! 0) of
                  Inl p \<Rightarrow> (Inl p, s)
                | Inr nextHead \<Rightarrow>
                  let dataKeys = (case DataKeys hr s nextHead of Inl err \<Rightarrow> {} | Inr ks \<Rightarrow> ks);
                      datas = Set.filter
                        (\<lambda>dataKey. migrateIn_moves patternOne patternTwo lastScore2 virtualScore2
                                     (enc dataKey)) dataKeys
                  in case DeleteNodeToDataKeys hr s nextHead datas of
                    (Some err, s1) \<Rightarrow> (Inl err, s1)
                  | (None, s1) \<Rightarrow>
                    (case AddNodeToDataKeys hr s1 nodeID datas of
                       (Some err, s2) \<Rightarrow> (Inl err, s2)
                     | (None, s2) \<Rightarrow> (Inr (nextHead, nodeID, datas), s2)))"

text \<open>The test of the loop of \<^verbatim>\<open>migrateOut\<close> on one data key.\<close>

definition migrateOut_moves :: "bool \<Rightarrow> bool \<Rightarrow> int32 \<Rightarrow> int32 \<Rightarrow> int32 \<Rightarrow> bool" where
  "migrateOut_moves onlyScore patten lastScore virtualScore p =
     (if onlyScore then True
      else let dataScore = (if patten \<and> lastScore + MaxInt32 <s p then p - MaxInt32 else p)
           in \<not> (dataScore \<le>s lastScore \<or> virtualScore <s dataScore))"

text \<open>
  The body of \<^verbatim>\<open>migrateOut\<close> up to its \<^verbatim>\<open>return\<close>: the named results
  \<^verbatim>\<open>(from, to, datas, err)\<close>. Three places matter:
  \<^item> after \<^verbatim>\<open>nodes, _err := c.hashRing.Node(...)\<close> the source tests \<^verbatim>\<open>err\<close>, the named
    result, which is still \<^verbatim>\<open>nil\<close>; \<^verbatim>\<open>_err\<close> is not read and \<^verbatim>\<open>nodes\<close> is \<^verbatim>\<open>nil\<close> on
    failure;
  \<^item> when \<^verbatim>\<open>getvaildNextNode\<close> fails, the source assigns \<^verbatim>\<open>err = _err\<close>, the error of
    the earlier \<^verbatim>\<open>Floor\<close> call, which is \<^verbatim>\<open>nil\<close> at this point, and returns with
    \<^verbatim>\<open>to\<close> empty;
  \<^item> a panic of \<^verbatim>\<open>getNodeID\<close> leaves \<^verbatim>\<open>to\<close> empty, so the deferred call writes
    nothing, and unwinds.
\<close>

definition migrateOut_body ::
  "'s HashRing \<Rightarrow> Encryptor \<Rightarrow> int32 \<Rightarrow> string \<Rightarrow> 's
     \<Rightarrow> string \<times> string \<times> string set \<times> error option" where
  "migrateOut_body hr enc virtualScore nodeID s =
     (let nodes = (case Node hr s virtualScore of Inl err1 \<Rightarrow> [] | Inr ns \<Rightarrow> ns)
      in if length nodes = 0 then (nodeID, '''', {}, None)
      else case getNodeID (nodes ! 0) of
        Inl p \<Rightarrow> (nodeID, '''', {}, Some p)
      | Inr head \<Rightarrow>
        if head \<noteq> nodeID then (nodeID, '''', {}, None)
        else case DataKeys hr s nodeID of
          Inl err \<Rightarrow> (nodeID, '''', {}, Some err)
        | Inr allDatas \<Rightarrow>
          if allDatas = {} then (nodeID, '''', {}, None)
          else case Floor hr s (decrScore virtualScore) of
            Inl err1 \<Rightarrow> (nodeID, '''', {}, Some err1)
          | Inr lastScore \<Rightarrow>
            if (lastScore = - 1 \<or> lastScore = virtualScore) \<and> length nodes = 1
            then (nodeID, '''', {}, Some (Error ''no other no''))
            else
              let onlyScore = (lastScore = - 1 \<or> lastScore = virtualScore);
                  patten = virtualScore <s lastScore;
                  lastScore1 = (if patten then lastScore - MaxInt32 else lastScore);
                  datas = Set.filter
                    (\<lambda>data. migrateOut_moves onlyScore patten lastScore1 virtualScore (enc data))
                    allDatas
              in if length nodes > 1 then
                   (case getNodeID (nodes ! 1) of
                      Inl p \<Rightarrow> (nodeID, '''', datas, Some p)
                    | Inr to \<Rightarrow> (nodeID, to, datas, None))
                 else
                   (case getvaildNextNode hr virtualScore nodeID {} s of
                      Inl (GoPanic p) \<Rightarrow> (nodeID, '''', datas, Some (GoPanic p))
                    | Inl err \<Rightarrow> (nodeID, '''', datas, None)
                    | Inr to \<Rightarrow>
                        if to = '''' then (nodeID, to, datas, Some (Error ''no other node''))
                        else (nodeID, to, datas, None)))"

text \<open>\<^verbatim>\<open>migrateOut\<close>: the body, then the deferred function, which may set \<^verbatim>\<open>err\<close>.\<close>

definition migrateOut ::
  "'s HashRing \<Rightarrow> Encryptor \<Rightarrow> Migrator option \<Rightarrow> int32 \<Rightarrow> string \<Rightarrow> 's
     \<Rightarrow> (error + string \<times> string \<times> string set) \<times> 's" where
  "migrateOut hr enc migrator virtualScore nodeID s =
     (if migrator = None then (Inr ('''', '''', {}), s)
      else case migrateOut_body hr enc virtualScore nodeID s of
        (from, to, datas, Some err) \<Rightarrow> (Inl err, s)
      | (from, to, datas, None) \<Rightarrow>
          if to = '''' \<or> datas = {} then (Inr (from, to, datas), s)
          else case DeleteNodeToDataKeys hr s nodeID datas of
            (Some err, s1) \<Rightarrow> (Inl err, s1)
          | (None, s1) \<Rightarrow>
            (case AddNodeToDataKeys hr s1 to datas of
               (Some err, s2) \<Rightarrow> (Inl err, s2)
             | (None, s2) \<Rightarrow> (Inr (from, to, datas), s2)))"

section \<open>The router core (consistent\_hash.go)\<close>

text \<open>
  A queued task is the closure \<^verbatim>\<open>func() { _ = c.migrator(ctx, datas, from, to) }\<close>;
  running it gives what the migrator does on these arguments (its error is dropped).
\<close>

definition runTask :: "Migrator option \<Rightarrow> string set \<Rightarrow> string \<Rightarrow> string \<Rightarrow> task_outcome" where
  "runTask migrator datas from to =
     (case migrator of
        None \<Rightarrow> TaskPanics ''invalid memory address or nil pointer dereference''
      | Some m \<Rightarrow> m datas from to)"

text \<open>
  \<^verbatim>\<open>batchExecuteMigrator\<close> starts one goroutine per task and waits for all of them.
  The deferred function of a goroutine recovers a panic and passes the value to
  \<^verbatim>\<open>log.Fatal\<close>, which ends the process; \<^verbatim>\<open>wg.Done()\<close> after it is not reached.
  Which tasks have finished by then depends on the scheduler; that the process ends
  does not.
\<close>

fun panics_of :: "task_outcome list \<Rightarrow> string list" where
  "panics_of [] = []"
| "panics_of (TaskPanics v # ts) = v # panics_of ts"
| "panics_of (TaskReturns e # ts) = panics_of ts"

definition batchExecuteMigrator :: "task_outcome list \<Rightarrow> unit outcome" where
  "batchExecuteMigrator migrateTasks =
     (if panics_of migrateTasks = [] then Returns ()
      else ProcessExit (panics_of migrateTasks))"

text \<open>The loop of \<^verbatim>\<open>AddNode\<close>: index \<open>i\<close>, \<open>n\<close> iterations left.\<close>

fun AddNode_loop ::
  "'s HashRing \<Rightarrow> Encryptor \<Rightarrow> Migrator option \<Rightarrow> string \<Rightarrow> int \<Rightarrow> nat
     \<Rightarrow> task_outcome list \<Rightarrow> 's \<Rightarrow> (error + task_outcome list) \<times> 's" where
  "AddNode_loop hr enc migrator nodeID i 0 migrateTasks s = (Inr migrateTasks, s)"
| "AddNode_loop hr enc migrator nodeID i (Suc n) migrateTasks s =
     (let nodeKey = getRawNodeKey nodeID i;
          virtualScore = enc nodeKey
      in case Add hr s virtualScore nodeKey of
        (Some err, s1) \<Rightarrow> (Inl err, s1)
      | (None, s1) \<Rightarrow>
        (case migrateIn hr enc migrator virtualScore nodeID s1 of
           (Inl err, s2) \<Rightarrow> (Inl err, s2)
         | (Inr (from, to, datas), s2) \<Rightarrow>
             if datas = {} then AddNode_loop hr enc migrator nodeID (i + 1) n migrateTasks s2
             else AddNode_loop hr enc migrator nodeID (i + 1) n
                    (migrateTasks @ [runTask migrator datas from to]) s2))"

text \<open>\<^verbatim>\<open>AddNode\<close> between taking the lock and the deferred \<^verbatim>\<open>Unlock\<close>.\<close>

definition AddNode_locked ::
  "'s HashRing \<Rightarrow> Encryptor \<Rightarrow> Migrator option \<Rightarrow> ConsistentHashOptions \<Rightarrow> string \<Rightarrow> int
     \<Rightarrow> 's \<Rightarrow> error option outcome \<times> 's" where
  "AddNode_locked hr enc migrator opts nodeID weight s =
     (case Nodes hr s of
        Inl err \<Rightarrow> (Returns (Some err), s)
      | Inr nodes \<Rightarrow>
        if nodeID \<in> dom nodes then (Returns (Some (Error ''repeat node'')), s)
        else
          let nreplicas = mul_int (getValidWeight weight) (replicas opts)
          in case AddNodeToReplica hr s nodeID nreplicas of
            (Some err, s1) \<Rightarrow> (Returns (Some err), s1)
          | (None, s1) \<Rightarrow>
            (case AddNode_loop hr enc migrator nodeID 0 (nat nreplicas) [] s1 of
               (Inl err, s2) \<Rightarrow> (Returns (Some err), s2)
             | (Inr migraeTasks, s2) \<Rightarrow>
                 (case batchExecuteMigrator migraeTasks of
                    ProcessExit vs \<Rightarrow> (ProcessExit vs, s2)
                  | Returns u \<Rightarrow> (Returns None, s2))))"

text \<open>The deferred \<^verbatim>\<open>Unlock\<close> runs on every return and unwinding panic; its error is dropped.\<close>

definition with_lock ::
  "'s HashRing \<Rightarrow> ConsistentHashOptions \<Rightarrow> ('s \<Rightarrow> 'a outcome \<times> 's) \<Rightarrow> (error \<Rightarrow> 'a)
     \<Rightarrow> 's \<Rightarrow> 'a outcome \<times> 's" where
  "with_lock hr opts body fail s =
     (case Lock hr s (lockExpireSeconds opts) of
        (Some err, s1) \<Rightarrow> (Returns (fail err), s1)
      | (None, s1) \<Rightarrow>
        (case body s1 of
           (ProcessExit vs, s2) \<Rightarrow> (ProcessExit vs, s2)
         | (Returns r, s2) \<Rightarrow> (Returns r, snd (Unlock hr s2))))"

definition AddNode ::
  "'s HashRing \<Rightarrow> Encryptor \<Rightarrow> Migrator option \<Rightarrow> ConsistentHashOptions \<Rightarrow> string \<Rightarrow> int
     \<Rightarrow> 's \<Rightarrow> error option outcome \<times> 's" where
  "AddNode hr enc migrator opts nodeID weight s =
     with_lock hr opts (AddNode_locked hr enc migrator opts nodeID weight) Some s"

text \<open>The loop of \<^verbatim>\<open>RemoveNode\<close>.\<close>

fun RemoveNode_loop ::
  "'s HashRing \<Rightarrow> Encryptor \<Rightarrow> Migrator option \<Rightarrow> string \<Rightarrow> int \<Rightarrow> nat
     \<Rightarrow> task_outcome list \<Rightarrow> 's \<Rightarrow> (error + task_outcome list) \<times> 's" where
  "RemoveNode_loop hr enc migrator nodeID i 0 migrateTasks s = (Inr migrateTasks, s)"
| "RemoveNode_loop hr enc migrator nodeID i (Suc n) migrateTasks s =
     (let virtualScore = enc (Sprintf_d_d nodeID i)
      in case migrateOut hr enc migrator virtualScore nodeID s of
        (Inl err, s1) \<Rightarrow> (Inl err, s1)
      | (Inr (from, to, datas), s1) \<Rightarrow>
        (let nodeKey = getRawNodeKey nodeID i
         in case Rem hr s1 virtualScore nodeKey of
           (Some err, s2) \<Rightarrow> (Inl err, s2)
         | (None, s2) \<Rightarrow>
             if datas = {} then RemoveNode_loop hr enc migrator nodeID (i + 1) n migrateTasks s2
             else RemoveNode_loop hr enc migrator nodeID (i + 1) n
                    (migrateTasks @ [runTask migrator datas from to]) s2))"

definition RemoveNode_locked ::
  "'s HashRing \<Rightarrow> Encryptor \<Rightarrow> Migrator option \<Rightarrow> string
     \<Rightarrow> 's \<Rightarrow> error option outcome \<times> 's" where
  "RemoveNode_locked hr enc migrator nodeID s =
     (case Nodes hr s of
        Inl err \<Rightarrow> (Returns (Some err), s)
      | Inr nodes \<Rightarrow>
        (case nodes nodeID of
           None \<Rightarrow> (Returns (Some (Error ''invalid node id'')), s)
         | Some nreplicas \<Rightarrow>
           (case DeleteNodeToReplica hr s nodeID of
              (Some err, s1) \<Rightarrow> (Returns (Some err), s1)
            | (None, s1) \<Rightarrow>
              (case RemoveNode_loop hr enc migrator nodeID 0 (nat nreplicas) [] s1 of
                 (Inl err, s2) \<Rightarrow> (Returns (Some err), s2)
               | (Inr migrateTasks, s2) \<Rightarrow>
                   (case batchExecuteMigrator migrateTasks of
                      ProcessExit vs \<Rightarrow> (ProcessExit vs, s2)
                    | Returns u \<Rightarrow> (Returns None, s2))))))"

definition RemoveNode ::
  "'s HashRing \<Rightarrow> Encryptor \<Rightarrow> Migrator option \<Rightarrow> ConsistentHashOptions \<Rightarrow> string
     \<Rightarrow> 's \<Rightarrow> error option outcome \<times> 's" where
  "RemoveNode hr enc migrator opts nodeID s =
     with_lock hr opts (RemoveNode_locked hr enc migrator nodeID) Some s"

text \<open>\<^verbatim>\<open>GetNode\<close> returns \<^verbatim>\<open>(string, error)\<close>: \<open>Inr\<close> the string, \<open>Inl\<close> the error.\<close>

definition GetNode_locked ::
  "'s HashRing \<Rightarrow> Encryptor \<Rightarrow> string \<Rightarrow> 's \<Rightarrow> (error + string) \<times> 's" where
  "GetNode_locked hr enc dataKey s =
     (let dataScore = enc dataKey
      in case Ceiling hr s dataScore of
        Inl err \<Rightarrow> (Inl err, s)
      | Inr ceilingScore \<Rightarrow>
        if ceilingScore = - 1 then (Inl (Error ''no node available''), s)
        else case Node hr s ceilingScore of
          Inl err \<Rightarrow> (Inl err, s)
        | Inr nodes \<Rightarrow>
          if length nodes = 0 then (Inl (Error ''no node available with empty score''), s)
          else case getNodeID (nodes ! 0) of
            Inl p \<Rightarrow> (Inl p, s)
          | Inr owner \<Rightarrow>
            (case AddNodeToDataKeys hr s owner {dataKey} of
               (Some err, s1) \<Rightarrow> (Inl err, s1)
             | (None, s1) \<Rightarrow> (Inr (nodes ! 0), s1)))"

definition GetNode ::
  "'s HashRing \<Rightarrow> Encryptor \<Rightarrow> ConsistentHashOptions \<Rightarrow> string
     \<Rightarrow> 's \<Rightarrow> (error + string) \<times> 's" where
  "GetNode hr enc opts dataKey s =
     (case Lock hr s (lockExpireSeconds opts) of
        (Some err, s1) \<Rightarrow> (Inl err, s1)
      | (None, s1) \<Rightarrow>
        (case GetNode_locked hr enc dataKey s1 of
           (r, s2) \<Rightarrow> (r, snd (Unlock hr s2))))"

section \<open>A recording store\<close>





section \<open>The Redis server, as the client sees it\<close>

text \<open>
  The server is not part of the repository; the commands the client sends are modelled
  after their documentation. A key holds a sorted set, a hash or a string. What the
  program stores as JSON text is kept as the value the text encodes: the member of a
  sorted set is a list of node keys, the field of a hash is a replica count, and a
  string value is either the JSON text of a set of data keys (\<open>JSON\<close>) or some other
  text (\<open>Plain\<close>, the token of a lock). Members of equal score are returned in the order
  they were added; the program never depends on their order. Keys do not expire.
\<close>

datatype strval = JSON "string set" | Plain string

datatype rvalue =
    VZSet "(string list \<times> int) list"
  | VHash "(string \<times> int) list"
  | VStr strval

type_synonym redis = "string \<rightharpoonup> rvalue"

datatype arg = S string | I int | M "string list" | K strval

datatype rdata = DMember "string list" | DScore int

datatype reply =
    ReplyError string
  | ReplyNil
  | ReplyOK
  | ReplyInt int
  | ReplyBulk strval
  | ReplyArray "rdata list"
  | ReplyHash "(string \<times> int) list"

definition to_upper :: "char \<Rightarrow> char" where
  "to_upper c =
     (case map_of (zip ''abcdefghijklmnopqrstuvwxyz'' ''ABCDEFGHIJKLMNOPQRSTUVWXYZ'') c of
        None \<Rightarrow> c | Some u \<Rightarrow> u)"

datatype bound = NegInf | Fin int | PosInf

definition parse_bound :: "arg \<Rightarrow> bound option" where
  "parse_bound a =
     (case a of
        I n \<Rightarrow> Some (Fin n)
      | S w \<Rightarrow> if w = ''+inf'' then Some PosInf else if w = ''-inf'' then Some NegInf else None
      | _ \<Rightarrow> None)"

fun above :: "bound \<Rightarrow> int \<Rightarrow> bool" where
  "above NegInf x = True"
| "above (Fin n) x = (n \<le> x)"
| "above PosInf x = False"

fun below :: "bound \<Rightarrow> int \<Rightarrow> bool" where
  "below NegInf x = False"
| "below (Fin n) x = (x \<le> n)"
| "below PosInf x = True"

definition WRONGTYPE :: reply where
  "WRONGTYPE = ReplyError ''WRONGTYPE Operation against a key holding the wrong kind of value''"

definition syntax_error :: reply where
  "syntax_error = ReplyError ''ERR syntax error''"

definition with_scores :: "(string list \<times> int) list \<Rightarrow> rdata list" where
  "with_scores es = concat (map (\<lambda>(m, sc). [DMember m, DScore sc]) es)"

definition zrange_byscore ::
  "redis \<Rightarrow> string \<Rightarrow> arg \<Rightarrow> arg \<Rightarrow> bool \<Rightarrow> bool \<Rightarrow> reply" where
  "zrange_byscore db table lo hi reversed first_only =
     (case (parse_bound lo, parse_bound hi) of
        (Some l, Some h) \<Rightarrow>
          (case db table of
             None \<Rightarrow> ReplyArray []
           | Some (VZSet es) \<Rightarrow>
               (let hits = sort_key snd (filter (\<lambda>(m, sc). above l sc \<and> below h sc) es);
                    ordered = (if reversed then rev hits else hits)
                in ReplyArray (with_scores (if first_only then take 1 ordered else ordered)))
           | Some v \<Rightarrow> WRONGTYPE)
      | _ \<Rightarrow> ReplyError ''ERR min or max is not a float'')"

definition ZRANGE :: "redis \<Rightarrow> arg list \<Rightarrow> reply" where
  "ZRANGE db args =
     (case args of
        [S table, a, b, S w1, S w2] \<Rightarrow>
          if w1 = ''BYSCORE'' \<and> w2 = ''WITHSCORES''
          then zrange_byscore db table a b False False else syntax_error
      | [S table, a, b, S w1, S w2, I off, I cnt, S w3] \<Rightarrow>
          if w1 = ''BYSCORE'' \<and> w2 = ''LIMIT'' \<and> off = 0 \<and> cnt = 1 \<and> w3 = ''WITHSCORES''
          then zrange_byscore db table a b False True else syntax_error
      | [S table, a, b, S w0, S w1, S w2, I off, I cnt, S w3] \<Rightarrow>
          if w0 = ''REV'' \<and> w1 = ''BYSCORE'' \<and> w2 = ''LIMIT'' \<and> off = 0 \<and> cnt = 1
             \<and> w3 = ''WITHSCORES''
          then zrange_byscore db table b a True True else syntax_error
      | _ \<Rightarrow> syntax_error)"


definition ZADD :: "redis \<Rightarrow> arg list \<Rightarrow> reply \<times> redis" where
  "ZADD db args =
     (case args of
        [S table, I score, M member] \<Rightarrow>
          (case db table of
             None \<Rightarrow> (ReplyInt 1, db(table \<mapsto> VZSet [(member, score)]))
           | Some (VZSet es) \<Rightarrow>
               (ReplyInt (if member \<in> fst ` set es then 0 else 1),
                db(table \<mapsto> VZSet (filter (\<lambda>(m, sc). m \<noteq> member) es @ [(member, score)])))
           | Some v \<Rightarrow> (WRONGTYPE, db))
      | _ \<Rightarrow> (syntax_error, db))"

definition ZREMRANGEBYSCORE :: "redis \<Rightarrow> arg list \<Rightarrow> reply \<times> redis" where
  "ZREMRANGEBYSCORE db args =
     (case args of
        [S table, I lo, I hi] \<Rightarrow>
          (case db table of
             None \<Rightarrow> (ReplyInt 0, db)
           | Some (VZSet es) \<Rightarrow>
               (let keep = filter (\<lambda>(m, sc). \<not> (lo \<le> sc \<and> sc \<le> hi)) es
                in (ReplyInt (int (length es) - int (length keep)),
                    if keep = [] then db(table := None) else db(table \<mapsto> VZSet keep)))
           | Some v \<Rightarrow> (WRONGTYPE, db))
      | _ \<Rightarrow> (syntax_error, db))"

definition HSET :: "redis \<Rightarrow> arg list \<Rightarrow> reply \<times> redis" where
  "HSET db args =
     (case args of
        [S table, S field, I val] \<Rightarrow>
          (case db table of
             None \<Rightarrow> (ReplyInt 1, db(table \<mapsto> VHash [(field, val)]))
           | Some (VHash h) \<Rightarrow>
               (ReplyInt (if field \<in> fst ` set h then 0 else 1),
                db(table \<mapsto> VHash (AList.update field val h)))
           | Some v \<Rightarrow> (WRONGTYPE, db))
      | _ \<Rightarrow> (syntax_error, db))"

definition HGETALL :: "redis \<Rightarrow> arg list \<Rightarrow> reply" where
  "HGETALL db args =
     (case args of
        [S table] \<Rightarrow>
          (case db table of
             None \<Rightarrow> ReplyHash []
           | Some (VHash h) \<Rightarrow> ReplyHash h
           | Some v \<Rightarrow> WRONGTYPE)
      | _ \<Rightarrow> syntax_error)"

definition HDEL :: "redis \<Rightarrow> arg list \<Rightarrow> reply \<times> redis" where
  "HDEL db args =
     (case args of
        [S table, S field] \<Rightarrow>
          (case db table of
             None \<Rightarrow> (ReplyInt 0, db)
           | Some (VHash h) \<Rightarrow>
               (let h1 = AList.delete field h
                in (ReplyInt (if field \<in> fst ` set h then 1 else 0),
                    if h1 = [] then db(table := None) else db(table \<mapsto> VHash h1)))
           | Some v \<Rightarrow> (WRONGTYPE, db))
      | _ \<Rightarrow> (syntax_error, db))"

text \<open>\<^verbatim>\<open>SET key value\<close>, and \<^verbatim>\<open>SET key value EX seconds NX\<close>, which sets only an absent key.\<close>

definition SET :: "redis \<Rightarrow> arg list \<Rightarrow> reply \<times> redis" where
  "SET db args =
     (case args of
        [S key, K val] \<Rightarrow> (ReplyOK, db(key \<mapsto> VStr val))
      | [S key, K val, S w1, I seconds, S w2] \<Rightarrow>
          if w1 = ''EX'' \<and> w2 = ''NX''
          then (if db key = None then (ReplyOK, db(key \<mapsto> VStr val)) else (ReplyNil, db))
          else (syntax_error, db)
      | _ \<Rightarrow> (syntax_error, db))"

definition GET :: "redis \<Rightarrow> arg list \<Rightarrow> reply" where
  "GET db args =
     (case args of
        [S key] \<Rightarrow>
          (case db key of
             None \<Rightarrow> ReplyNil
           | Some (VStr val) \<Rightarrow> ReplyBulk val
           | Some v \<Rightarrow> WRONGTYPE)
      | _ \<Rightarrow> syntax_error)"

definition DEL :: "redis \<Rightarrow> arg list \<Rightarrow> reply \<times> redis" where
  "DEL db args =
     (case args of
        [S key] \<Rightarrow> (ReplyInt (if db key = None then 0 else 1), db(key := None))
      | _ \<Rightarrow> (syntax_error, db))"

text \<open>
  The one script the program has the server run is the lock library's
  check-and-delete: it deletes the key when the key holds the given token and answers
  \<open>1\<close>, and answers \<open>0\<close> otherwise.
\<close>

definition LuaCheckAndDeleteDistributionLock :: string where
  "LuaCheckAndDeleteDistributionLock = ''check the token at KEYS[1], then del''"

definition EVAL :: "redis \<Rightarrow> arg list \<Rightarrow> reply \<times> redis" where
  "EVAL db args =
     (case args of
        [S script, I numkeys, S key, S token] \<Rightarrow>
          if script = LuaCheckAndDeleteDistributionLock \<and> numkeys = 1 then
            (case db key of
               None \<Rightarrow> (ReplyInt 0, db)
             | Some (VStr val) \<Rightarrow>
                 if val = Plain token then (ReplyInt 1, db(key := None)) else (ReplyInt 0, db)
             | Some v \<Rightarrow> (WRONGTYPE, db))
          else (ReplyError ''ERR Error compiling script'', db)
      | _ \<Rightarrow> (syntax_error, db))"

text \<open>
  \<^verbatim>\<open>conn.Do(name, args...)\<close>: the server looks the command name up without regard to
  case and answers a name it does not know with an error reply.
\<close>

definition Do :: "redis \<Rightarrow> string \<Rightarrow> arg list \<Rightarrow> reply \<times> redis" where
  "Do db name args =
     (let cmd = map to_upper name
      in if cmd = ''ZADD'' then ZADD db args
         else if cmd = ''ZRANGE'' then (ZRANGE db args, db)
         else if cmd = ''ZREMRANGEBYSCORE'' then ZREMRANGEBYSCORE db args
         else if cmd = ''HSET'' then HSET db args
         else if cmd = ''HGETALL'' then (HGETALL db args, db)
         else if cmd = ''HDEL'' then HDEL db args
         else if cmd = ''SET'' then SET db args
         else if cmd = ''GET'' then (GET db args, db)
         else if cmd = ''DEL'' then DEL db args
         else if cmd = ''EVAL'' then EVAL db args
         else (ReplyError (''ERR unknown command '' @ name), db))"

section \<open>The Redis client (redis/redis.go)\<close>

definition ErrScoreNotExist :: error where
  "ErrScoreNotExist = Error ''score not exist''"

record ScoreEntity =
  Score :: int
  Val :: "string list"

text \<open>
  redigo's \<^verbatim>\<open>redis.Values\<close>, \<^verbatim>\<open>redis.String\<close>, \<^verbatim>\<open>redis.StringMap\<close> and \<^verbatim>\<open>redis.Int64\<close>
  applied to what \<^verbatim>\<open>Do\<close> returns.
\<close>

definition Values :: "reply \<Rightarrow> error + rdata list" where
  "Values r =
     (case r of
        ReplyArray xs \<Rightarrow> Inr xs
      | ReplyNil \<Rightarrow> Inl RedisErrNil
      | ReplyError m \<Rightarrow> Inl (RedisReplyError m)
      | _ \<Rightarrow> Inl (Error ''redigo: unexpected type for Values''))"

definition String :: "reply \<Rightarrow> error + strval" where
  "String r =
     (case r of
        ReplyBulk v \<Rightarrow> Inr v
      | ReplyOK \<Rightarrow> Inr (Plain ''OK'')
      | ReplyNil \<Rightarrow> Inl RedisErrNil
      | ReplyError m \<Rightarrow> Inl (RedisReplyError m)
      | _ \<Rightarrow> Inl (Error ''redigo: unexpected type for String''))"

definition StringMap :: "reply \<Rightarrow> error + (string \<times> int) list" where
  "StringMap r =
     (case r of
        ReplyHash h \<Rightarrow> Inr h
      | ReplyNil \<Rightarrow> Inl RedisErrNil
      | ReplyError m \<Rightarrow> Inl (RedisReplyError m)
      | _ \<Rightarrow> Inl (Error ''redigo: unexpected type for StringMap''))"

definition Int64 :: "reply \<Rightarrow> int \<times> error option" where
  "Int64 r =
     (case r of
        ReplyInt n \<Rightarrow> (n, None)
      | ReplyNil \<Rightarrow> (0, Some RedisErrNil)
      | ReplyError m \<Rightarrow> (0, Some (RedisReplyError m))
      | _ \<Rightarrow> (0, Some (Error ''redigo: unexpected type for Int64'')))"

definition reply_error :: "reply \<Rightarrow> error option" where
  "reply_error r = (case r of ReplyError m \<Rightarrow> Some (RedisReplyError m) | _ \<Rightarrow> None)"

fun entities :: "rdata list \<Rightarrow> ScoreEntity list" where
  "entities (DMember m # DScore sc # raws) = \<lparr>Score = sc, Val = m\<rparr> # entities raws"
| "entities raws = []"

definition Client_ZAdd :: "redis \<Rightarrow> string \<Rightarrow> int \<Rightarrow> string list \<Rightarrow> error option \<times> redis" where
  "Client_ZAdd db table score val =
     (case Do db ''ZADD'' [S table, I score, M val] of (r, db1) \<Rightarrow> (reply_error r, db1))"

definition Client_ZRangeByScore :: "redis \<Rightarrow> string \<Rightarrow> int \<Rightarrow> int \<Rightarrow> error + ScoreEntity list" where
  "Client_ZRangeByScore db table score1 score2 =
     (case Values (fst (Do db ''ZRANGE'' [S table, I score1, I score2, S ''BYSCORE'', S ''WITHSCORES''])) of
        Inl err \<Rightarrow> Inl err
      | Inr raws \<Rightarrow>
          if odd (length raws) then Inl (Error ''invalid entity len'')
          else Inr (entities raws))"

text \<open>
  \<^verbatim>\<open>Ceiling\<close>, \<^verbatim>\<open>Floor\<close> and \<^verbatim>\<open>FirstOrLast\<close> return \<^verbatim>\<open>(*ScoreEntity, error)\<close>; the pair
  is kept, \<open>None\<close> for \<^verbatim>\<open>nil\<close>. The command name sent by \<^verbatim>\<open>Ceiling\<close> is the one of the
  source.
\<close>

definition one_entity :: "error + rdata list \<Rightarrow> ScoreEntity option \<times> error option" where
  "one_entity v =
     (case v of
        Inl err \<Rightarrow> (None, Some err)
      | Inr raws \<Rightarrow>
          if length raws \<noteq> 2 then (None, Some (Wrap ''invalid len of entity'' ErrScoreNotExist))
          else (case entities raws of
                  e # es \<Rightarrow> (Some e, None)
                | [] \<Rightarrow> (Some \<lparr>Score = 0, Val = []\<rparr>, None)))"

definition Client_Ceiling :: "redis \<Rightarrow> string \<Rightarrow> int \<Rightarrow> ScoreEntity option \<times> error option" where
  "Client_Ceiling db table score =
     one_entity (Values (fst (Do db ''ZANGE''
       [S table, I score, S ''+inf'', S ''BYSCORE'', S ''LIMIT'', I 0, I 1, S ''WITHSCORES''])))"

definition Client_Floor :: "redis \<Rightarrow> string \<Rightarrow> int \<Rightarrow> ScoreEntity option \<times> error option" where
  "Client_Floor db table score =
     one_entity (Values (fst (Do db ''ZRANGE''
       [S table, I score, S ''-inf'', S ''REV'', S ''BYSCORE'', S ''LIMIT'', I 0, I 1, S ''WITHSCORES''])))"

definition Client_FirstOrLast :: "redis \<Rightarrow> string \<Rightarrow> bool \<Rightarrow> ScoreEntity option \<times> error option" where
  "Client_FirstOrLast db table first =
     one_entity (Values (fst
       (if first
        then Do db ''ZRANGE''
               [S table, S ''-inf'', S ''+inf'', S ''BYSCORE'', S ''LIMIT'', I 0, I 1, S ''WITHSCORES'']
        else Do db ''ZRANGE''
               [S table, S ''+inf'', S ''-inf'', S ''REV'', S ''BYSCORE'', S ''LIMIT'', I 0, I 1,
                S ''WITHSCORES''])))"

definition Client_ZRem :: "redis \<Rightarrow> string \<Rightarrow> int \<Rightarrow> error option \<times> redis" where
  "Client_ZRem db table score =
     (case Do db ''ZREMRANGEBYSCORE'' [S table, I score, I score] of (r, db1) \<Rightarrow> (reply_error r, db1))"

definition Client_HSet :: "redis \<Rightarrow> string \<Rightarrow> string \<Rightarrow> int \<Rightarrow> error option \<times> redis" where
  "Client_HSet db table key val =
     (case Do db ''HSet'' [S table, S key, I val] of (r, db1) \<Rightarrow> (reply_error r, db1))"

definition Client_HGetAll :: "redis \<Rightarrow> string \<Rightarrow> error + (string \<times> int) list" where
  "Client_HGetAll db table = StringMap (fst (Do db ''HGETALL'' [S table]))"

definition Client_HDel :: "redis \<Rightarrow> string \<Rightarrow> string \<Rightarrow> error option \<times> redis" where
  "Client_HDel db table key =
     (case Do db ''HDEL'' [S table, S key] of (r, db1) \<Rightarrow> (reply_error r, db1))"

definition Client_Set :: "redis \<Rightarrow> string \<Rightarrow> strval \<Rightarrow> error option \<times> redis" where
  "Client_Set db key val =
     (case Do db ''SET'' [S key, K val] of (r, db1) \<Rightarrow> (reply_error r, db1))"

definition Client_Get :: "redis \<Rightarrow> string \<Rightarrow> error + strval" where
  "Client_Get db key = String (fst (Do db ''GET'' [S key]))"

definition Client_Del :: "redis \<Rightarrow> string \<Rightarrow> error option \<times> redis" where
  "Client_Del db key =
     (case Do db ''DEL'' [S key] of (r, db1) \<Rightarrow> (reply_error r, db1))"

text \<open>\<^verbatim>\<open>Eval\<close> returns the reply and the error of \<^verbatim>\<open>Do\<close>.\<close>

definition Client_Eval ::
  "redis \<Rightarrow> string \<Rightarrow> int \<Rightarrow> arg list \<Rightarrow> (reply \<times> error option) \<times> redis" where
  "Client_Eval db src keyCount keysAndArgs =
     (case Do db ''EVAL'' (S src # I keyCount # keysAndArgs) of
        (r, db1) \<Rightarrow> ((r, reply_error r), db1))"

text \<open>
  \<^verbatim>\<open>SetNEX\<close> returns \<^verbatim>\<open>(int64, error)\<close>: \<open>1\<close> when the server answers \<^verbatim>\<open>OK\<close>, and
  otherwise what \<^verbatim>\<open>redis.Int64\<close> makes of the reply, which for the nil reply of a key
  that exists is \<^verbatim>\<open>redis.ErrNil\<close>.
\<close>

definition Client_SetNEX ::
  "redis \<Rightarrow> string \<Rightarrow> string \<Rightarrow> int \<Rightarrow> (int \<times> error option) \<times> redis" where
  "Client_SetNEX db key val expireSeconds =
     (if key = '''' \<or> val = ''''
      then ((- 1, Some (Error ''redis SET keyNX or value can not be empty'')), db)
      else case Do db ''SET'' [S key, K (Plain val), S ''EX'', I expireSeconds, S ''NX''] of
        (r, db1) \<Rightarrow>
          (case reply_error r of
             Some err \<Rightarrow> ((- 1, Some err), db1)
           | None \<Rightarrow> if r = ReplyOK then ((1, None), db1) else (Int64 r, db1)))"

section \<open>The Redis hash ring (redis/hash\_ring.go)\<close>

definition getLockKey :: "string \<Rightarrow> string" where
  "getLockKey key = ''redis:consistent_hash:ring:lock:'' @ key"

definition getTableKey :: "string \<Rightarrow> string" where
  "getTableKey key = ''redis:consistent_hash:ring:'' @ key"

definition getNodeReplicaKey :: "string \<Rightarrow> string" where
  "getNodeReplicaKey key = ''redis:consistent_hash:ring:node:replica:'' @ key"

definition getNodeDataKey :: "string \<Rightarrow> string" where
  "getNodeDataKey nodeID = ''redis:consistent_hash:ring:node:data:'' @ nodeID"

text \<open>
  The lock is the one of an external library (\<^verbatim>\<open>redis_lock\<close>), which works through the
  client of this repository. \<^verbatim>\<open>Lock\<close> calls \<^verbatim>\<open>SetNEX\<close> on the key, which the library
  prefixes, with the token of the caller; it returns the error of \<^verbatim>\<open>SetNEX\<close>, and
  \<^verbatim>\<open>ErrLockAcquiredByOthers\<close> when the reply is not \<open>1\<close>. \<^verbatim>\<open>Unlock\<close> has the server run
  the check-and-delete script and fails when the reply is not \<open>1\<close>. The token names
  the calling process and goroutine; the model has one caller.
\<close>

definition RedisLockKeyPrefix :: string where
  "RedisLockKeyPrefix = ''REDIS_LOCK_PREFIX_''"

definition lockToken :: string where
  "lockToken = ''process_goroutine''"

definition ErrLockAcquiredByOthers :: error where
  "ErrLockAcquiredByOthers = Error ''lock is acquired by others''"

definition Redis_Lock :: "string \<Rightarrow> redis \<Rightarrow> int \<Rightarrow> error option \<times> redis" where
  "Redis_Lock key db expireSeconds =
     (case Client_SetNEX db (RedisLockKeyPrefix @ getLockKey key) lockToken expireSeconds of
        ((r, Some err), db1) \<Rightarrow> (Some err, db1)
      | ((r, None), db1) \<Rightarrow>
          if r \<noteq> 1 then (Some (Wrap ''reply'' ErrLockAcquiredByOthers), db1)
          else (None, db1))"

definition Redis_Unlock :: "string \<Rightarrow> redis \<Rightarrow> error option \<times> redis" where
  "Redis_Unlock key db =
     (case Client_Eval db LuaCheckAndDeleteDistributionLock 1
             [S (RedisLockKeyPrefix @ getLockKey key), S lockToken] of
        ((r, Some err), db1) \<Rightarrow> (Some err, db1)
      | ((r, None), db1) \<Rightarrow>
          if r \<noteq> ReplyInt 1 then (Some (Error ''can not unlock without ownership of lock''), db1)
          else (None, db1))"

definition Redis_Add :: "string \<Rightarrow> redis \<Rightarrow> int32 \<Rightarrow> string \<Rightarrow> error option \<times> redis" where
  "Redis_Add key db score nodeID =
     (case Client_ZRangeByScore db (getTableKey key) (sint score) (sint score) of
        Inl err \<Rightarrow> (Some (Wrap ''redis ring add failed, err'' err), db)
      | Inr ScoreEntities \<Rightarrow>
          if length ScoreEntities > 1 then (Some (Error ''invalid score entity len''), db)
          else if length ScoreEntities = 1 then
            (let nodeIDs = Val (ScoreEntities ! 0)
             in if nodeID \<in> set nodeIDs then (None, db)
                else case Client_ZRem db (getTableKey key) (Score (ScoreEntities ! 0)) of
                  (Some err, db1) \<Rightarrow> (Some (Wrap ''redis ring zrem failed, err'' err), db1)
                | (None, db1) \<Rightarrow>
                    (case Client_ZAdd db1 (getTableKey key) (sint score) (nodeIDs @ [nodeID]) of
                       (Some err, db2) \<Rightarrow> (Some (Wrap ''redis ring zadd failed, err'' err), db2)
                     | (None, db2) \<Rightarrow> (None, db2)))
          else
            (case Client_ZAdd db (getTableKey key) (sint score) ([] @ [nodeID]) of
               (Some err, db2) \<Rightarrow> (Some (Wrap ''redis ring zadd failed, err'' err), db2)
             | (None, db2) \<Rightarrow> (None, db2)))"

text \<open>The index of the first occurrence, as the loop of \<^verbatim>\<open>Rem\<close> finds it.\<close>

fun index_of :: "string list \<Rightarrow> string \<Rightarrow> nat option" where
  "index_of [] x = None"
| "index_of (y # ys) x = (if y = x then Some 0 else map_option Suc (index_of ys x))"

definition Redis_Rem :: "string \<Rightarrow> redis \<Rightarrow> int32 \<Rightarrow> string \<Rightarrow> error option \<times> redis" where
  "Redis_Rem key db score nodeID =
     (case Client_ZRangeByScore db (getTableKey key) (sint score) (sint score) of
        Inl err \<Rightarrow> (Some (Wrap ''redis ring rem zrange by score failed, err'' err), db)
      | Inr scoreEntities \<Rightarrow>
          if length scoreEntities \<noteq> 1
          then (Some (Error ''redis ring rem failed, invalid score entity len''), db)
          else
            (let nodeIDs = Val (scoreEntities ! 0)
             in case index_of nodeIDs nodeID of
               None \<Rightarrow> (None, db)
             | Some index \<Rightarrow>
                 (case Client_ZRem db (getTableKey key) (Score (scoreEntities ! 0)) of
                    (Some err, db1) \<Rightarrow> (Some (Wrap ''redis ring rem zrem failed, err'' err), db1)
                  | (None, db1) \<Rightarrow>
                      (let nodeIDs1 = take index nodeIDs @ drop (index + 1) nodeIDs
                       in if length nodeIDs1 = 0 then (None, db1)
                          else case Client_ZAdd db1 (getTableKey key) (Score (scoreEntities ! 0)) nodeIDs1 of
                            (Some err, db2) \<Rightarrow> (Some (Wrap ''redis ring rem zadd failed, err'' err), db2)
                          | (None, db2) \<Rightarrow> (None, db2)))))"

text \<open>
  \<^verbatim>\<open>Ceiling\<close> of the ring: \<open>Redis_Ceiling_after\<close> is the body after the first call of
  the client, whose result it takes.
\<close>

definition Redis_Ceiling_after ::
  "string \<Rightarrow> redis \<Rightarrow> ScoreEntity option \<times> error option \<Rightarrow> error + int32" where
  "Redis_Ceiling_after key db found =
     (case found of
        (scoreEntity, err) \<Rightarrow>
          if err \<noteq> None \<and> \<not> errors_Is (the err) ErrScoreNotExist
          then Inl (Wrap ''redis ring ceiling failed, err'' (the err))
          else case scoreEntity of
            Some e \<Rightarrow> Inr (word_of_int (Score e))
          | None \<Rightarrow>
              (case Client_FirstOrLast db (getTableKey key) True of
                 (scoreEntity1, Some err1) \<Rightarrow> Inl (Wrap ''redis ring first failed, err'' err1)
               | (Some e, None) \<Rightarrow> Inr (word_of_int (Score e))
               | (None, None) \<Rightarrow> Inr (- 1)))"

definition Redis_Ceiling :: "string \<Rightarrow> redis \<Rightarrow> int32 \<Rightarrow> error + int32" where
  "Redis_Ceiling key db score =
     Redis_Ceiling_after key db (Client_Ceiling db (getTableKey key) (sint score))"

definition Redis_Floor :: "string \<Rightarrow> redis \<Rightarrow> int32 \<Rightarrow> error + int32" where
  "Redis_Floor key db score =
     (case Client_Floor db (getTableKey key) (sint score) of
        (scoreEntity, err) \<Rightarrow>
          if err \<noteq> None \<and> \<not> errors_Is (the err) ErrScoreNotExist
          then Inl (Wrap ''redis ring floor failed, err'' (the err))
          else case scoreEntity of
            Some e \<Rightarrow> Inr (word_of_int (Score e))
          | None \<Rightarrow>
              (case Client_FirstOrLast db (getTableKey key) False of
                 (scoreEntity1, err1) \<Rightarrow>
                   if err1 \<noteq> None \<and> \<not> errors_Is (the err1) ErrScoreNotExist
                   then Inl (Wrap ''redis ring last failed, err'' (the err1))
                   else case scoreEntity1 of
                     Some e \<Rightarrow> Inr (word_of_int (Score e))
                   | None \<Rightarrow> Inr (- 1)))"

definition Redis_Node :: "string \<Rightarrow> redis \<Rightarrow> int32 \<Rightarrow> error + string list" where
  "Redis_Node key db score =
     (case Client_ZRangeByScore db (getTableKey key) (sint score) (sint score) of
        Inl err \<Rightarrow> Inl (Wrap ''redis ring node zrange by score failed, err'' err)
      | Inr scoreEntities \<Rightarrow>
          if length scoreEntities \<noteq> 1
          then Inl (Error ''redis ring node failed, invalid len of score entities'')
          else Inr (Val (scoreEntities ! 0)))"

definition Redis_Nodes :: "string \<Rightarrow> redis \<Rightarrow> error + (string \<rightharpoonup> int)" where
  "Redis_Nodes key db =
     (case Client_HGetAll db (getNodeReplicaKey key) of
        Inl err \<Rightarrow> Inl (Wrap ''redis ring nodes hgetall failed, err'' err)
      | Inr rawData \<Rightarrow> Inr (map_of rawData))"

definition Redis_AddNodeToReplica :: "string \<Rightarrow> redis \<Rightarrow> string \<Rightarrow> int \<Rightarrow> error option \<times> redis" where
  "Redis_AddNodeToReplica key db nodeID nreplicas =
     (case Client_HSet db (getNodeReplicaKey key) nodeID nreplicas of
        (Some err, db1) \<Rightarrow> (Some (Wrap ''redis ring add node to replica failed, err'' err), db1)
      | (None, db1) \<Rightarrow> (None, db1))"

definition Redis_DeleteNodeToReplica :: "string \<Rightarrow> redis \<Rightarrow> string \<Rightarrow> error option \<times> redis" where
  "Redis_DeleteNodeToReplica key db nodeID =
     (case Client_HDel db (getNodeReplicaKey key) nodeID of
        (Some err, db1) \<Rightarrow> (Some (Wrap ''redis ring delete node to replica failed, err'' err), db1)
      | (None, db1) \<Rightarrow> (None, db1))"

text \<open>
  \<^verbatim>\<open>json.Unmarshal\<close> of a string value into a key set: it succeeds on the JSON text of a
  key set and fails on any other text. \<^verbatim>\<open>len(resStr) > 0\<close> fails on the empty text only.
\<close>

definition Unmarshal :: "strval \<Rightarrow> error + string set" where
  "Unmarshal resStr =
     (case resStr of
        JSON dataKeys \<Rightarrow> Inr dataKeys
      | Plain t \<Rightarrow> Inl (Error ''json: cannot unmarshal''))"

definition is_empty_text :: "strval \<Rightarrow> bool" where
  "is_empty_text resStr = (resStr = Plain '''')"

definition Redis_DataKeys :: "redis \<Rightarrow> string \<Rightarrow> error + string set" where
  "Redis_DataKeys db nodeID =
     (case Client_Get db (getNodeDataKey nodeID) of
        Inl err \<Rightarrow>
          if \<not> errors_Is err RedisErrNil then Inl (Wrap ''redis ring dataKeys get failed, err'' err)
          else Inr {}
      | Inr resStr \<Rightarrow>
          if \<not> is_empty_text resStr then Unmarshal resStr else Inr {})"

definition Redis_AddNodeToDataKeys :: "redis \<Rightarrow> string \<Rightarrow> string set \<Rightarrow> error option \<times> redis" where
  "Redis_AddNodeToDataKeys db nodeID dataKeys =
     (case (case Client_Get db (getNodeDataKey nodeID) of
              Inl err \<Rightarrow>
                if \<not> errors_Is err RedisErrNil
                then Inl (Wrap ''redis ring addNodeToDataKey get failed, err'' err)
                else Inr {}
            | Inr resStr \<Rightarrow>
                if \<not> is_empty_text resStr then Unmarshal resStr else Inr {}) of
        Inl err \<Rightarrow> (Some err, db)
      | Inr oldDataKeys \<Rightarrow>
          (case Client_Set db (getNodeDataKey nodeID) (JSON (oldDataKeys \<union> dataKeys)) of
             (Some err, db1) \<Rightarrow> (Some (Wrap ''redis ring addNodeToDataKey set failed, err'' err), db1)
           | (None, db1) \<Rightarrow> (None, db1)))"

definition Redis_DeleteNodeToDataKeys :: "redis \<Rightarrow> string \<Rightarrow> string set \<Rightarrow> error option \<times> redis" where
  "Redis_DeleteNodeToDataKeys db nodeID dataKeys =
     (case Client_Get db (getNodeDataKey nodeID) of
        Inl err \<Rightarrow> (Some (Wrap ''redis ring addNodeToDataKey get failed, err'' err), db)
      | Inr resStr \<Rightarrow>
          (case Unmarshal resStr of
             Inl err \<Rightarrow> (Some err, db)
           | Inr oldDataKeys \<Rightarrow>
               if oldDataKeys - dataKeys = {} then Client_Del db (getNodeDataKey nodeID)
               else Client_Set db (getNodeDataKey nodeID) (JSON (oldDataKeys - dataKeys))))"

definition RedisHashRing :: "string \<Rightarrow> redis HashRing" where
  "RedisHashRing key = \<lparr>
     Lock = Redis_Lock key,
     Unlock = Redis_Unlock key,
     Add = Redis_Add key,
     Ceiling = Redis_Ceiling key,
     Floor = Redis_Floor key,
     Rem = Redis_Rem key,
     Nodes = Redis_Nodes key,
     AddNodeToReplica = Redis_AddNodeToReplica key,
     DeleteNodeToReplica = Redis_DeleteNodeToReplica key,
     Node = Redis_Node key,
     DataKeys = Redis_DataKeys,
     AddNodeToDataKeys = Redis_AddNodeToDataKeys,
     DeleteNodeToDataKeys = Redis_DeleteNodeToDataKeys
   \<rparr>"

section \<open>An in-memory store\<close>

text \<open>
  A second implementation of the interface, which keeps the ring in memory and does for
  each operation what the comments of the interface in hash\_ring.go say; it serves as
  the store of concrete runs of the router.
\<close>

record memory =
  buckets :: "(int32 \<times> string list) list"
  replicaCounts :: "(string \<times> int) list"
  dataKeysOf :: "(string \<times> string set) list"
  locked :: bool

definition smin :: "int32 list \<Rightarrow> int32" where
  "smin xs = fold (\<lambda>a b. if a <s b then a else b) xs (hd xs)"

definition smax :: "int32 list \<Rightarrow> int32" where
  "smax xs = fold (\<lambda>a b. if b <s a then a else b) xs (hd xs)"

definition mem_Lock :: "memory \<Rightarrow> int \<Rightarrow> error option \<times> memory" where
  "mem_Lock m expireSeconds =
     (if locked m then (Some (Error ''lock is acquired by others''), m)
      else (None, m\<lparr>locked := True\<rparr>))"

definition mem_Unlock :: "memory \<Rightarrow> error option \<times> memory" where
  "mem_Unlock m = (None, m\<lparr>locked := False\<rparr>)"

definition mem_Add :: "memory \<Rightarrow> int32 \<Rightarrow> string \<Rightarrow> error option \<times> memory" where
  "mem_Add m virtualScore nodeID =
     (case map_of (buckets m) virtualScore of
        None \<Rightarrow> (None, m\<lparr>buckets := buckets m @ [(virtualScore, [nodeID])]\<rparr>)
      | Some nodeIDs \<Rightarrow>
          if nodeID \<in> set nodeIDs then (None, m)
          else (None, m\<lparr>buckets := AList.update virtualScore (nodeIDs @ [nodeID]) (buckets m)\<rparr>))"

definition mem_Rem :: "memory \<Rightarrow> int32 \<Rightarrow> string \<Rightarrow> error option \<times> memory" where
  "mem_Rem m virtualScore nodeID =
     (case map_of (buckets m) virtualScore of
        None \<Rightarrow> (Some (Error ''no virtual node at this score''), m)
      | Some nodeIDs \<Rightarrow>
          if remove1 nodeID nodeIDs = []
          then (None, m\<lparr>buckets := AList.delete virtualScore (buckets m)\<rparr>)
          else (None, m\<lparr>buckets := AList.update virtualScore (remove1 nodeID nodeIDs) (buckets m)\<rparr>))"

definition mem_Ceiling :: "memory \<Rightarrow> int32 \<Rightarrow> error + int32" where
  "mem_Ceiling m virtualScore =
     (let scores = map fst (buckets m);
          following = filter (\<lambda>sc. virtualScore \<le>s sc) scores
      in if following \<noteq> [] then Inr (smin following)
         else if scores \<noteq> [] then Inr (smin scores)
         else Inr (- 1))"

definition mem_Floor :: "memory \<Rightarrow> int32 \<Rightarrow> error + int32" where
  "mem_Floor m virtualScore =
     (let scores = map fst (buckets m);
          preceding = filter (\<lambda>sc. sc \<le>s virtualScore) scores
      in if preceding \<noteq> [] then Inr (smax preceding)
         else if scores \<noteq> [] then Inr (smax scores)
         else Inr (- 1))"

definition mem_Node :: "memory \<Rightarrow> int32 \<Rightarrow> error + string list" where
  "mem_Node m virtualScore =
     (case map_of (buckets m) virtualScore of
        None \<Rightarrow> Inl (Error ''no virtual node at this score'')
      | Some nodeIDs \<Rightarrow> Inr nodeIDs)"

definition mem_DataKeys :: "memory \<Rightarrow> string \<Rightarrow> error + string set" where
  "mem_DataKeys m nodeID =
     (case map_of (dataKeysOf m) nodeID of None \<Rightarrow> Inr {} | Some ks \<Rightarrow> Inr ks)"

definition mem_AddNodeToDataKeys :: "memory \<Rightarrow> string \<Rightarrow> string set \<Rightarrow> error option \<times> memory" where
  "mem_AddNodeToDataKeys m nodeID dataKeys =
     (case map_of (dataKeysOf m) nodeID of
        None \<Rightarrow> (None, m\<lparr>dataKeysOf := AList.update nodeID dataKeys (dataKeysOf m)\<rparr>)
      | Some ks \<Rightarrow> (None, m\<lparr>dataKeysOf := AList.update nodeID (ks \<union> dataKeys) (dataKeysOf m)\<rparr>))"

definition mem_DeleteNodeToDataKeys :: "memory \<Rightarrow> string \<Rightarrow> string set \<Rightarrow> error option \<times> memory" where
  "mem_DeleteNodeToDataKeys m nodeID dataKeys =
     (case map_of (dataKeysOf m) nodeID of
        None \<Rightarrow> (None, m)
      | Some ks \<Rightarrow>
          if ks - dataKeys = {} then (None, m\<lparr>dataKeysOf := AList.delete nodeID (dataKeysOf m)\<rparr>)
          else (None, m\<lparr>dataKeysOf := AList.update nodeID (ks - dataKeys) (dataKeysOf m)\<rparr>))"

definition memRing :: "memory HashRing" where
  "memRing = \<lparr>
     Lock = mem_Lock,
     Unlock = mem_Unlock,
     Add = mem_Add,
     Ceiling = mem_Ceiling,
     Floor = mem_Floor,
     Rem = mem_Rem,
     Nodes = (\<lambda>m. Inr (map_of (replicaCounts m))),
     AddNodeToReplica = (\<lambda>m nodeID n. (None, m\<lparr>replicaCounts := AList.update nodeID n (replicaCounts m)\<rparr>)),
     DeleteNodeToReplica = (\<lambda>m nodeID. (None, m\<lparr>replicaCounts := AList.delete nodeID (replicaCounts m)\<rparr>)),
     Node = mem_Node,
     DataKeys = mem_DataKeys,
     AddNodeToDataKeys = mem_AddNodeToDataKeys,
     DeleteNodeToDataKeys = mem_DeleteNodeToDataKeys
   \<rparr>"

definition emptyMemory :: memory where
  "emptyMemory = \<lparr>buckets = [], replicaCounts = [], dataKeysOf = [], locked = False\<rparr>"

section \<open>Stores, ring states and collaborators for concrete runs\<close>

text \<open>
  An encryptor that sends a string to its length, options with a replica scale of one,
  and a migrator that returns \<^verbatim>\<open>nil\<close>.
\<close>

definition lengthEncryptor :: Encryptor where
  "lengthEncryptor origin = word_of_nat (length origin)"

definition unitOptions :: ConsistentHashOptions where
  "unitOptions = \<lparr>lockExpireSeconds = 10, replicas = 1\<rparr>"

definition nopMigrator :: Migrator where
  "nopMigrator dataKeys from to = TaskReturns None"

text \<open>The in-memory store with one query that always fails, and three ring states.\<close>

definition failingNode :: "memory HashRing" where
  "failingNode = memRing\<lparr>Node := (\<lambda>m score. Inl (Error ''connection reset''))\<rparr>"

definition failingDataKeys :: "memory HashRing" where
  "failingDataKeys = memRing\<lparr>DataKeys := (\<lambda>m nodeID. Inl (Error ''connection reset''))\<rparr>"

definition failingCeiling :: "memory HashRing" where
  "failingCeiling = memRing\<lparr>Ceiling := (\<lambda>m score. Inl (Error ''connection reset''))\<rparr>"

definition ringA :: memory where
  "ringA = \<lparr>buckets = [(15, [''%!d(string=A)_0''])], replicaCounts = [(''A'', 1)],
             dataKeysOf = [], locked = False\<rparr>"

definition ringB :: memory where
  "ringB = \<lparr>buckets = [(20, [''B_0''])], replicaCounts = [(''B'', 1)],
             dataKeysOf = [(''B'', {''k''})], locked = False\<rparr>"

definition ringAB :: memory where
  "ringAB = \<lparr>buckets = [(15, [''A_0'']), (20, [''B_0''])],
              replicaCounts = [(''A'', 1), (''B'', 1)],
              dataKeysOf = [(''A'', {''k''})], locked = False\<rparr>"



text \<open>A score lies on the ring when it is in \<open>[0, M)\<close>, \<open>M\<close> being \<^verbatim>\<open>math.MaxInt32\<close>.\<close>

definition onRing :: "int32 \<Rightarrow> bool" where
  "onRing x = (0 \<le>s x \<and> x <s MaxInt32)"

definition ringWrap :: memory where
  "ringWrap = \<lparr>buckets = [(20, [''B_0'']), (15, [''%!d(string=A)_0''])],
                replicaCounts = [(''B'', 1), (''A'', 1)],
                dataKeysOf = [(''B'', {''k'', ''a key of length 18'', ''a key with a length of 24''})],
                locked = False\<rparr>"

section \<open>Notions for stating the properties\<close>

text \<open>
  One step of the walk of \<^verbatim>\<open>getvaildNextNode\<close>: from the score and visited set \<open>a\<close> to
  those of the recursive call \<open>b\<close>. The step exists when the next bucket clockwise is
  not yet visited and holds a single key, the victim's.
\<close>

definition skip ::
  "'s HashRing \<Rightarrow> 's \<Rightarrow> string \<Rightarrow> int32 \<times> int32 set \<Rightarrow> int32 \<times> int32 set \<Rightarrow> bool" where
  "skip hr s victim a b =
     (case Ceiling hr s (incrScore (fst a)) of
        Inl err \<Rightarrow> False
      | Inr c \<Rightarrow>
          c \<noteq> - 1 \<and> c \<notin> snd a
          \<and> (case Node hr s c of
                Inr [k] \<Rightarrow> getNodeID k = Inr victim
              | _ \<Rightarrow> False)
          \<and> b = (c, insert (fst a) (snd a)))"

text \<open>
  A ring state that can be read: \<^verbatim>\<open>Ceiling\<close> answers, and every bucket it names can
  be fetched, is not empty and holds keys with a suffix to strip.
\<close>

definition readable :: "'s HashRing \<Rightarrow> 's \<Rightarrow> bool" where
  "readable hr s =
     ((\<forall>x. \<exists>y. Ceiling hr s x = Inr y)
      \<and> (\<forall>x y. Ceiling hr s x = Inr y \<and> y \<noteq> - 1 \<longrightarrow>
            (\<exists>l. Node hr s y = Inr l \<and> l \<noteq> [] \<and> (\<forall>k \<in> set l. \<exists>id. getNodeID k = Inr id))))"

definition ringOnlyA :: memory where
  "ringOnlyA = \<lparr>buckets = [(15, [''A_0'']), (20, [''A_1''])], replicaCounts = [],
                 dataKeysOf = [(''A'', {''k''})], locked = False\<rparr>"

definition ringTwin :: memory where
  "ringTwin = \<lparr>buckets = [(15, [''A_0'']), (20, [''A_1'', ''A_2'']), (30, [''B_0''])],
                replicaCounts = [(''B'', 1)],
                dataKeysOf = [(''A'', {''k''})], locked = False\<rparr>"

text \<open>More ring states, and the Redis ring behind a \<^verbatim>\<open>Ceiling\<close> that answers.\<close>

definition ringAowning :: memory where
  "ringAowning = \<lparr>buckets = [(15, [''%!d(string=A)_0''])], replicaCounts = [(''A'', 1)],
                   dataKeysOf = [(''%!d(string=A)'', {''k''})], locked = False\<rparr>"

definition ringSingle :: memory where
  "ringSingle = \<lparr>buckets = [(15, [''A_0''])], replicaCounts = [(''A'', 1)],
                  dataKeysOf = [(''A'', {''k''})], locked = False\<rparr>"



section \<open>Raw node keys and real node ids\<close>

lemma digit_char_not_underscore: "d < 10 \<Longrightarrow> digit_char d \<noteq> CHR ''_''"
proof -
  assume "d < 10"
  then have "d \<in> {0,1,2,3,4,5,6,7,8,9}" by auto
  then show ?thesis by (auto simp: digit_char_def)
qed

lemma showNat_no_underscore: "CHR ''_'' \<notin> set (showNat n)"
proof (induction n rule: showNat.induct)
  case (1 n)
  show ?case
  proof (cases "n < 10")
    case True
    then show ?thesis using digit_char_not_underscore [of n] by (subst showNat.simps) auto
  next
    case False
    have "n mod 10 < 10" by simp
    then have "digit_char (n mod 10) \<noteq> CHR ''_''" by (rule digit_char_not_underscore)
    with False 1 show ?thesis by (subst showNat.simps) auto
  qed
qed

lemma showInt_no_underscore: "CHR ''_'' \<notin> set (showInt i)"
  by (simp add: showInt_def showNat_no_underscore)

lemma LastIndex_absent: "c \<notin> set ys \<Longrightarrow> LastIndex ys c = -1"
  by (induction ys) (auto simp: Let_def)

lemma LastIndex_last: "c \<notin> set ys \<Longrightarrow> LastIndex (xs @ c # ys) c = int (length xs)"
  by (induction xs) (auto simp: Let_def LastIndex_absent)

lemma getNodeID_append: "CHR ''_'' \<notin> set ys \<Longrightarrow> getNodeID (xs @ CHR ''_'' # ys) = Inr xs"
  by (simp add: getNodeID_def LastIndex_last)

text \<open>
  C6. The claim: the raw key of node \<open>n\<close> and replica \<open>i\<close> is \<open>n\<close>, an underscore and
  \<open>i\<close>, and \<^verbatim>\<open>getNodeID\<close> gives \<open>n\<close> back. What the code computes: the format verb
  \<^verbatim>\<open>%d\<close> is applied to the string, so the key is \<^verbatim>\<open>%!d(string=n)_i\<close>, and
  \<^verbatim>\<open>getNodeID\<close> of it is \<^verbatim>\<open>%!d(string=n)\<close>, never \<open>n\<close>.
\<close>

theorem getNodeID_getRawNodeKey:
  "getRawNodeKey n i = ''%!d(string='' @ n @ '')_'' @ showInt i
   \<and> getNodeID (getRawNodeKey n i) = Inr (''%!d(string='' @ n @ '')'')
   \<and> getNodeID (getRawNodeKey n i) \<noteq> Inr n"
proof -
  have k: "getRawNodeKey n i = (''%!d(string='' @ n @ '')'') @ CHR ''_'' # showInt i"
    by (simp add: getRawNodeKey_def Sprintf_d_d_def)
  have g: "getNodeID (getRawNodeKey n i) = Inr (''%!d(string='' @ n @ '')'')"
    unfolding k by (rule getNodeID_append) (rule showInt_no_underscore)
  have "length (''%!d(string='' @ n @ '')'') \<noteq> length n" by simp
  then have "''%!d(string='' @ n @ '')'' \<noteq> n" by metis
  with k g show ?thesis by simp
qed

section \<open>Weights and replica counts\<close>











section \<open>Panicking migrators\<close>

lemma panics_of_mem: "TaskPanics v \<in> set tasks \<Longrightarrow> v \<in> set (panics_of tasks)"
  by (induction tasks rule: panics_of.induct) auto

text \<open>
  C5. The claim: a panic of a migrator is recovered and logged, the process goes on and
  the other tasks of the batch finish before the batch returns. What the code does: the
  deferred function passes the recovered value to \<^verbatim>\<open>log.Fatal\<close>, which ends the process;
  as soon as one task of a batch panics, the batch does not return.
\<close>

theorem batchExecuteMigrator_panic_exits:
  assumes "TaskPanics v \<in> set migrateTasks"
  shows "\<exists>vs. batchExecuteMigrator migrateTasks = ProcessExit vs \<and> v \<in> set vs
           \<and> batchExecuteMigrator migrateTasks \<noteq> Returns ()"
proof -
  from assms have "v \<in> set (panics_of migrateTasks)" by (rule panics_of_mem)
  then have "panics_of migrateTasks \<noteq> []" by auto
  with \<open>v \<in> set (panics_of migrateTasks)\<close> show ?thesis
    by (simp add: batchExecuteMigrator_def)
qed

theorem batchExecuteMigrator_panic_exits_witness:
  "TaskPanics ''boom'' \<in> set [TaskReturns None, TaskPanics ''boom'', TaskReturns None]
   \<and> batchExecuteMigrator [TaskReturns None, TaskPanics ''boom'', TaskReturns None]
       = ProcessExit [''boom'']"
  using batchExecuteMigrator_panic_exits [of "''boom''" "[TaskReturns None, TaskPanics ''boom'', TaskReturns None]"]
  by (simp add: batchExecuteMigrator_def)

section \<open>What GetNode returns\<close>

lemma LastIndex_less: "LastIndex xs c < int (length xs)"
  by (induction xs) (auto simp: Let_def)

lemma getNodeID_shorter: "getNodeID k = Inr owner \<Longrightarrow> length owner < length k"
  using LastIndex_less [of k "CHR ''_''"]
  by (auto simp: getNodeID_def Let_def split: if_splits)

lemma getNodeID_neq: "getNodeID k = Inr owner \<Longrightarrow> owner \<noteq> k"
  using getNodeID_shorter by fastforce

text \<open>
  C1. The claim: \<^verbatim>\<open>GetNode\<close> returns the real node id of the head of the bucket at the
  ceiling of the key's score, the head with its suffix stripped. What the code does:
  it records the key under the stripped id and returns the head itself, the raw
  virtual-node key, which is never equal to its stripped id.
\<close>

theorem GetNode_returns_raw_key:
  assumes "GetNode hr enc opts dataKey s = (Inr r, s')"
  shows "\<exists>s1 c nodes owner.
           Lock hr s (lockExpireSeconds opts) = (None, s1)
         \<and> Ceiling hr s1 (enc dataKey) = Inr c
         \<and> Node hr s1 c = Inr nodes \<and> nodes \<noteq> [] \<and> r = nodes ! 0
         \<and> getNodeID (nodes ! 0) = Inr owner \<and> r \<noteq> owner"
proof -
  from assms obtain s1 s2 where
    lk: "Lock hr s (lockExpireSeconds opts) = (None, s1)" and
    b: "GetNode_locked hr enc dataKey s1 = (Inr r, s2)"
    by (auto simp: GetNode_def split: prod.splits option.splits)
  from b obtain c nodes owner where
    "Ceiling hr s1 (enc dataKey) = Inr c" "Node hr s1 c = Inr nodes" "nodes \<noteq> []"
    "getNodeID (nodes ! 0) = Inr owner" "r = nodes ! 0"
    by (auto simp: GetNode_locked_def Let_def split: sum.splits if_splits prod.splits option.splits)
  moreover from this have "r \<noteq> owner" using getNodeID_neq by fastforce
  ultimately show ?thesis using lk by blast
qed

theorem GetNode_returns_raw_key_witness:
  "fst (AddNode memRing lengthEncryptor None unitOptions ''A'' 2 emptyMemory) = Returns None
   \<and> fst (GetNode memRing lengthEncryptor unitOptions ''k1''
            (snd (AddNode memRing lengthEncryptor None unitOptions ''A'' 2 emptyMemory)))
       = Inr ''%!d(string=A)_0''
   \<and> getNodeID ''%!d(string=A)_0'' = Inr ''%!d(string=A)''
   \<and> ''%!d(string=A)_0'' \<noteq> ''A''"
proof -
  let ?m = "snd (AddNode memRing lengthEncryptor None unitOptions ''A'' 2 emptyMemory)"
  have a: "fst (AddNode memRing lengthEncryptor None unitOptions ''A'' 2 emptyMemory) = Returns None"
    by code_simp
  have g: "GetNode memRing lengthEncryptor unitOptions ''k1'' ?m =
    (Inr ''%!d(string=A)_0'',
     \<lparr>buckets = [(15, [''%!d(string=A)_0'', ''%!d(string=A)_1''])],
        replicaCounts = [(''A'', 2)], dataKeysOf = [(''%!d(string=A)'', {''k1''})], locked = False\<rparr>)"
    by code_simp
  from GetNode_returns_raw_key [OF g] obtain nodes owner where
    "getNodeID (nodes ! 0) = Inr owner" "''%!d(string=A)_0'' = nodes ! 0"
    by blast
  then have "\<exists>owner. getNodeID ''%!d(string=A)_0'' = Inr owner" by auto
  moreover have "getNodeID ''%!d(string=A)_0'' = Inr ''%!d(string=A)''" by code_simp
  ultimately show ?thesis using a g by simp
qed

section \<open>The empty ring\<close>

lemma Do_commands:
  "Do db ''ZADD'' args = ZADD db args"
  "Do db ''ZRANGE'' args = (ZRANGE db args, db)"
  "Do db ''ZREMRANGEBYSCORE'' args = ZREMRANGEBYSCORE db args"
  "Do db ''HSet'' args = HSET db args"
  "Do db ''HGETALL'' args = (HGETALL db args, db)"
  "Do db ''HDEL'' args = HDEL db args"
  "Do db ''SET'' args = SET db args"
  "Do db ''GET'' args = (GET db args, db)"
  "Do db ''DEL'' args = DEL db args"
  "Do db ''EVAL'' args = EVAL db args"
  "Do db ''ZANGE'' args = (ReplyError ''ERR unknown command ZANGE'', db)"
  by (simp_all add: Do_def to_upper_def)

lemma Client_Ceiling_unknown_command:
  "Client_Ceiling db table score = (None, Some (RedisReplyError ''ERR unknown command ZANGE''))"
  by (simp add: Client_Ceiling_def Do_commands one_entity_def Values_def)

lemma Redis_Ceiling_fails:
  "Redis_Ceiling key db score =
     Inl (Wrap ''redis ring ceiling failed, err'' (RedisReplyError ''ERR unknown command ZANGE''))"
  by (simp add: Redis_Ceiling_def Redis_Ceiling_after_def Client_Ceiling_unknown_command
        ErrScoreNotExist_def)

lemma Client_FirstOrLast_empty:
  "db table = None \<Longrightarrow>
   Client_FirstOrLast db table first = (None, Some (Wrap ''invalid len of entity'' ErrScoreNotExist))"
  by (simp add: Client_FirstOrLast_def Do_commands ZRANGE_def zrange_byscore_def
        parse_bound_def one_entity_def Values_def with_scores_def)

lemma Client_Floor_empty:
  "db table = None \<Longrightarrow>
   Client_Floor db table score = (None, Some (Wrap ''invalid len of entity'' ErrScoreNotExist))"
  by (simp add: Client_Floor_def Do_commands ZRANGE_def zrange_byscore_def
        parse_bound_def one_entity_def Values_def with_scores_def)

lemma Redis_Floor_empty: "db (getTableKey key) = None \<Longrightarrow> Redis_Floor key db score = Inr (- 1)"
  by (simp add: Redis_Floor_def Client_Floor_empty Client_FirstOrLast_empty ErrScoreNotExist_def)

lemma Redis_Lock_free:
  assumes "db (RedisLockKeyPrefix @ getLockKey key) = None"
  shows "Redis_Lock key db expireSeconds =
           (None, db(RedisLockKeyPrefix @ getLockKey key \<mapsto> VStr (Plain lockToken)))"
proof -
  have k: "RedisLockKeyPrefix @ getLockKey key \<noteq> ''''" "lockToken \<noteq> ''''"
    by (simp_all add: RedisLockKeyPrefix_def lockToken_def)
  show ?thesis
    using assms k
    by (simp add: Redis_Lock_def Client_SetNEX_def Do_commands SET_def reply_error_def)
qed

lemma Redis_Ceiling_after_empty:
  assumes "db (getTableKey key) = None"
  shows "\<exists>e. Redis_Ceiling_after key db (None, first_error) = Inl e"
  using assms
  by (simp add: Redis_Ceiling_after_def Client_FirstOrLast_empty)

text \<open>
  C3. The claim: on an empty ring \<^verbatim>\<open>Ceiling\<close> of the Redis store returns \<open>-1\<close> without
  error, so \<^verbatim>\<open>GetNode\<close> fails with \<^verbatim>\<open>no node available\<close>. What the code does on an
  empty ring:
  \<^item> \<^verbatim>\<open>Ceiling\<close> returns an error, because the client sends the command name
    \<^verbatim>\<open>ZANGE\<close>, which the server rejects;
  \<^item> whatever its first call reports, when that call finds no entity the rest of
    \<^verbatim>\<open>Ceiling\<close> returns an error too: the fallback \<^verbatim>\<open>FirstOrLast\<close> reports
    \<^verbatim>\<open>ErrScoreNotExist\<close>, which \<^verbatim>\<open>Ceiling\<close> returns as a failure;
  \<^item> \<^verbatim>\<open>Floor\<close>, which exempts that error, returns \<open>-1\<close>;
  \<^item> \<^verbatim>\<open>GetNode\<close> passes the error of \<^verbatim>\<open>Ceiling\<close> on.
\<close>

theorem Redis_Ceiling_empty_ring:
  assumes "db (getTableKey key) = None" and "db (RedisLockKeyPrefix @ getLockKey key) = None"
  shows "Redis_Ceiling key db score =
           Inl (Wrap ''redis ring ceiling failed, err'' (RedisReplyError ''ERR unknown command ZANGE''))
       \<and> (\<forall>first_error. \<exists>e. Redis_Ceiling_after key db (None, first_error) = Inl e)
       \<and> Redis_Floor key db score = Inr (- 1)
       \<and> fst (GetNode (RedisHashRing key) enc opts dataKey db) =
           Inl (Wrap ''redis ring ceiling failed, err'' (RedisReplyError ''ERR unknown command ZANGE''))"
proof -
  have "fst (GetNode (RedisHashRing key) enc opts dataKey db) =
           Inl (Wrap ''redis ring ceiling failed, err'' (RedisReplyError ''ERR unknown command ZANGE''))"
    using assms(2)
    by (simp add: GetNode_def GetNode_locked_def RedisHashRing_def Redis_Lock_free
          Redis_Ceiling_fails)
  with assms(1) show ?thesis
    by (simp add: Redis_Ceiling_fails Redis_Ceiling_after_empty Redis_Floor_empty)
qed

theorem Redis_Ceiling_empty_ring_witness:
  "Map.empty (getTableKey ''ring'') = None
   \<and> Map.empty (RedisLockKeyPrefix @ getLockKey ''ring'') = None
   \<and> Redis_Ceiling ''ring'' Map.empty 7 \<noteq> Inr (- 1)
   \<and> fst (GetNode (RedisHashRing ''ring'') lengthEncryptor unitOptions ''x'' Map.empty)
       \<noteq> Inl (Error ''no node available'')"
  using Redis_Ceiling_empty_ring [of Map.empty "''ring''" 7 lengthEncryptor unitOptions "''x''"]
  by simp

section \<open>Errors of the store inside the planner\<close>

lemma migrateOut_Node_error:
  assumes "migrator \<noteq> None" and "Node hr s cur = Inl e"
  shows "migrateOut hr enc migrator cur n s = (Inr (n, '''', {}), s)"
  using assms by (auto simp: migrateOut_def migrateOut_body_def)

lemma Set_filter_empty: "Set.filter P {} = {}"
  by auto

lemma migrateIn_DataKeys_error:
  "migrateIn hr enc migrator cur n s =
   migrateIn (hr\<lparr>DataKeys := (\<lambda>s' n'. case DataKeys hr s' n' of Inl e \<Rightarrow> Inr {} | Inr ks \<Rightarrow> Inr ks)\<rparr>)
     enc migrator cur n s"
  unfolding migrateIn_def Let_def
  by (auto simp: Set_filter_empty split: sum.splits prod.splits option.splits)

lemma migrateOut_next_error:
  assumes "migrator \<noteq> None" and "Node hr s cur = Inr [k]" and "getNodeID k = Inr n"
    and "DataKeys hr s n = Inr ks" and "ks \<noteq> {}"
    and "Floor hr s (decrScore cur) = Inr lastScore" and "lastScore \<noteq> - 1" and "lastScore \<noteq> cur"
    and "getvaildNextNode hr cur n {} s = Inl e" and "\<And>p. e \<noteq> GoPanic p"
  shows "\<exists>datas. migrateOut hr enc migrator cur n s = (Inr (n, '''', datas), s)"
  using assms
  by (cases e) (auto simp: migrateOut_def migrateOut_body_def Let_def)


text \<open>
  C4. The claim: every error of a store operation inside \<^verbatim>\<open>migrateIn\<close> and
  \<^verbatim>\<open>migrateOut\<close> reaches the caller. What the code does, with a migrator registered:
  \<^item> an error of \<^verbatim>\<open>Node\<close> in \<^verbatim>\<open>migrateOut\<close> is dropped (the test reads the named
    result \<^verbatim>\<open>err\<close> instead of \<^verbatim>\<open>_err\<close>), and \<^verbatim>\<open>migrateOut\<close> returns no error;
  \<^item> \<^verbatim>\<open>migrateIn\<close> behaves on a failing \<^verbatim>\<open>DataKeys\<close> exactly as on one that answers
    with the empty set (its error is never read);
  \<^item> an error of \<^verbatim>\<open>getvaildNextNode\<close> in \<^verbatim>\<open>migrateOut\<close> is replaced by the \<^verbatim>\<open>nil\<close>
    error of the earlier \<^verbatim>\<open>Floor\<close> call, and \<^verbatim>\<open>migrateOut\<close> returns no error.
\<close>

theorem migrate_store_errors_discarded:
  assumes "migrator \<noteq> None"
  shows "(Node hr1 s1 cur1 = Inl e1
            \<longrightarrow> migrateOut hr1 enc1 migrator cur1 n1 s1 = (Inr (n1, '''', {}), s1))
       \<and> migrateIn hr2 enc2 migrator cur2 n2 s2 =
           migrateIn (hr2\<lparr>DataKeys :=
                        (\<lambda>s' n'. case DataKeys hr2 s' n' of Inl e \<Rightarrow> Inr {} | Inr ks \<Rightarrow> Inr ks)\<rparr>)
             enc2 migrator cur2 n2 s2
       \<and> (Node hr3 s3 cur3 = Inr [k] \<and> getNodeID k = Inr n3
            \<and> DataKeys hr3 s3 n3 = Inr ks3 \<and> ks3 \<noteq> {}
            \<and> Floor hr3 s3 (decrScore cur3) = Inr lastScore \<and> lastScore \<noteq> - 1
            \<and> lastScore \<noteq> cur3
            \<and> getvaildNextNode hr3 cur3 n3 {} s3 = Inl e3 \<and> (\<forall>p. e3 \<noteq> GoPanic p)
            \<longrightarrow> (\<exists>datas. migrateOut hr3 enc3 migrator cur3 n3 s3 = (Inr (n3, '''', datas), s3)))"
  using assms migrateOut_Node_error [of migrator hr1 s1 cur1 e1 enc1 n1]
    migrateIn_DataKeys_error [of hr2 enc2 migrator cur2 n2 s2]
    migrateOut_next_error [of migrator hr3 s3 cur3 k n3 ks3 lastScore e3 enc3]
  by blast

theorem migrate_store_errors_discarded_witness:
  "Some nopMigrator \<noteq> None
   \<and> Node failingNode (snd (DeleteNodeToReplica failingNode ringA ''A'')) 15
        = Inl (Error ''connection reset'')
   \<and> fst (RemoveNode failingNode lengthEncryptor (Some nopMigrator) unitOptions ''A'' ringA)
        = Returns None
   \<and> DataKeys failingDataKeys ringB ''B'' = Inl (Error ''connection reset'')
   \<and> fst (AddNode failingDataKeys lengthEncryptor (Some nopMigrator) unitOptions ''A'' 1 ringB)
        = Returns None
   \<and> getvaildNextNode failingCeiling 15 ''A'' {} (snd (DeleteNodeToReplica failingCeiling ringAB ''A''))
        = Inl (Error ''connection reset'')
   \<and> fst (RemoveNode failingCeiling lengthEncryptor (Some nopMigrator) unitOptions ''A'' ringAB)
        = Returns None
   \<and> migrateOut failingNode lengthEncryptor (Some nopMigrator) 15 ''A''
          (snd (DeleteNodeToReplica failingNode ringA ''A''))
        = (Inr (''A'', '''', {}), snd (DeleteNodeToReplica failingNode ringA ''A''))
   \<and> (\<exists>datas. migrateOut failingCeiling lengthEncryptor (Some nopMigrator) 15 ''A''
          (snd (DeleteNodeToReplica failingCeiling ringAB ''A''))
        = (Inr (''A'', '''', datas), snd (DeleteNodeToReplica failingCeiling ringAB ''A'')))"
proof -
  let ?s1 = "snd (DeleteNodeToReplica failingNode ringA ''A'')"
  let ?s3 = "snd (DeleteNodeToReplica failingCeiling ringAB ''A'')"
  have m: "Some nopMigrator \<noteq> None" by simp
  have n1: "Node failingNode ?s1 15 = Inl (Error ''connection reset'')" by code_simp
  have r1: "fst (RemoveNode failingNode lengthEncryptor (Some nopMigrator) unitOptions ''A'' ringA)
        = Returns None" by code_simp
  have d2: "DataKeys failingDataKeys ringB ''B'' = Inl (Error ''connection reset'')" by code_simp
  have r2: "fst (AddNode failingDataKeys lengthEncryptor (Some nopMigrator) unitOptions ''A'' 1 ringB)
        = Returns None" by code_simp
  have g3: "getvaildNextNode failingCeiling 15 ''A'' {} ?s3 = Inl (Error ''connection reset'')"
    by code_simp
  have r3: "fst (RemoveNode failingCeiling lengthEncryptor (Some nopMigrator) unitOptions ''A'' ringAB)
        = Returns None" by code_simp
  have h3: "Node failingCeiling ?s3 15 = Inr [''A_0''] \<and> getNodeID ''A_0'' = Inr ''A''
            \<and> DataKeys failingCeiling ?s3 ''A'' = Inr {''k''} \<and> {''k''} \<noteq> ({} :: string set)
            \<and> Floor failingCeiling ?s3 (decrScore 15) = Inr 20 \<and> (20 :: int32) \<noteq> - 1
            \<and> (20 :: int32) \<noteq> 15"
    by code_simp
  note T = migrate_store_errors_discarded [OF m, where ?hr1.0 = failingNode and ?s1.0 = ?s1
      and ?cur1.0 = 15 and ?e1.0 = "Error ''connection reset''" and ?enc1.0 = lengthEncryptor
      and ?n1.0 = "''A''" and ?hr3.0 = failingCeiling and ?s3.0 = ?s3 and ?cur3.0 = 15
      and k = "''A_0''" and ?n3.0 = "''A''" and ?ks3.0 = "{''k''}" and lastScore = 20
      and ?e3.0 = "Error ''connection reset''" and ?enc3.0 = lengthEncryptor]
  have c1: "migrateOut failingNode lengthEncryptor (Some nopMigrator) 15 ''A'' ?s1
        = (Inr (''A'', '''', {}), ?s1)"
    by (rule mp [OF T [THEN conjunct1] n1])
  from h3 g3 have p3: "Node failingCeiling ?s3 15 = Inr [''A_0''] \<and> getNodeID ''A_0'' = Inr ''A''
            \<and> DataKeys failingCeiling ?s3 ''A'' = Inr {''k''} \<and> {''k''} \<noteq> ({} :: string set)
            \<and> Floor failingCeiling ?s3 (decrScore 15) = Inr 20 \<and> (20 :: int32) \<noteq> - 1
            \<and> (20 :: int32) \<noteq> 15
            \<and> getvaildNextNode failingCeiling 15 ''A'' {} ?s3 = Inl (Error ''connection reset'')
            \<and> (\<forall>p. Error ''connection reset'' \<noteq> GoPanic p)"
    by simp
  have c3: "\<exists>datas. migrateOut failingCeiling lengthEncryptor (Some nopMigrator) 15 ''A'' ?s3
        = (Inr (''A'', '''', datas), ?s3)"
    by (rule mp [OF T [THEN conjunct2, THEN conjunct2] p3])
  from m n1 r1 d2 r2 g3 r3 c1 c3 show ?thesis by blast
qed

section \<open>The move set of migrateIn\<close>

lemma sint_MaxInt32: "sint MaxInt32 = 2147483647"
  by (simp add: MaxInt32_def)

lemma onRing_sint: "onRing x \<longleftrightarrow> 0 \<le> sint x \<and> sint x < 2147483647"
  by (simp add: onRing_def word_sle_eq word_sless_alt sint_MaxInt32)

lemma sint_shift:
  assumes "onRing x"
  shows "sint (x - MaxInt32) = sint x - 2147483647"
proof -
  from assms have r: "0 \<le> sint x" "sint x < 2147483647" by (simp_all add: onRing_sint)
  have "sint (x - MaxInt32) = signed_take_bit (LENGTH(32) - 1) (sint x - sint MaxInt32)"
    by (rule sint_word_ariths)
  also have "\<dots> = signed_take_bit 31 (sint x - 2147483647)"
    by (simp add: sint_MaxInt32)
  also have "\<dots> = sint x - 2147483647"
    using r by (intro signed_take_bit_int_eq_self) simp_all
  finally show ?thesis .
qed

lemma migrateIn_moves_wrap:
  assumes "onRing lastScore" "onRing cur" "onRing p" "cur <s lastScore"
  shows "migrateIn_moves True False (lastScore - MaxInt32) cur p \<longleftrightarrow> lastScore <s p \<or> p \<le>s cur"
  using assms sint_shift [of lastScore] sint_shift [of p]
  by (auto simp: migrateIn_moves_def Let_def word_sle_eq word_sless_alt onRing_sint)

lemma migrateIn_moves_plain:
  "migrateIn_moves False False lastScore cur p \<longleftrightarrow> lastScore <s p \<and> p \<le>s cur"
  by (auto simp: migrateIn_moves_def Let_def word_sle_eq word_sless_alt)

lemma migrateIn_moves_next_wraps:
  assumes "onRing lastScore" "onRing cur" "onRing p"
  shows "migrateIn_moves False True (lastScore - MaxInt32) (cur - MaxInt32) p
           \<longleftrightarrow> lastScore <s p \<and> p \<le>s cur"
  using assms sint_shift [of lastScore] sint_shift [of p] sint_shift [of cur]
  by (auto simp: migrateIn_moves_def Let_def word_sle_eq word_sless_alt onRing_sint)


text \<open>
  C7. Let \<^verbatim>\<open>migrateIn\<close> get as far as its loop: a migrator is registered, the new
  bucket at \<open>cur\<close> holds one key, the ring has a predecessor \<open>lastScore\<close> and a successor
  \<open>nextScore\<close> other than \<open>cur\<close>, and the head of the successor owns the candidate keys.
  All scores lie on the ring. Then a candidate key is in the returned move set iff
  \<^item> when \<open>lastScore > cur\<close> (the arc crosses zero, and the successor is not below
    \<open>cur\<close>): its score is above \<open>lastScore\<close>, that is in \<open>(lastScore, M)\<close>, or at most
    \<open>cur\<close>, that is in \<open>[0, cur]\<close>;
  \<^item> otherwise: its score is above \<open>lastScore\<close> and at most \<open>cur\<close>.
\<close>

theorem migrateIn_move_set:
  assumes run: "migrateIn hr enc migrator cur nodeID s = (Inr (from, to, datas), s')"
    and path: "migrator \<noteq> None" "Node hr s cur = Inr nodes" "length nodes \<le> 1"
      "Floor hr s (decrScore cur) = Inr lastScore" "lastScore \<noteq> - 1" "lastScore \<noteq> cur"
      "Ceiling hr s (incrScore cur) = Inr nextScore" "nextScore \<noteq> - 1" "nextScore \<noteq> cur"
      "Node hr s nextScore = Inr nextNodes" "nextNodes \<noteq> []"
      "getNodeID (nextNodes ! 0) = Inr nextHead" "DataKeys hr s nextHead = Inr candidateKeys"
    and ring: "onRing cur" "onRing lastScore" "\<forall>k \<in> candidateKeys. onRing (enc k)"
    and one_wrap: "cur <s lastScore \<longrightarrow> \<not> nextScore <s cur"
  shows "k \<in> datas \<longleftrightarrow>
           k \<in> candidateKeys \<and>
           (if cur <s lastScore then lastScore <s enc k \<or> enc k \<le>s cur
            else lastScore <s enc k \<and> enc k \<le>s cur)"
proof -
  let ?p1 = "cur <s lastScore" and ?p2 = "nextScore <s cur"
  let ?l = "if ?p2 then (if ?p1 then lastScore - MaxInt32 else lastScore) - MaxInt32
            else (if ?p1 then lastScore - MaxInt32 else lastScore)"
  let ?c = "if ?p2 then cur - MaxInt32 else cur"
  from path(1) obtain m where m: "migrator = Some m" by auto
  have "datas = Set.filter (\<lambda>dataKey. migrateIn_moves ?p1 ?p2 ?l ?c (enc dataKey)) candidateKeys"
    using run path(2-) unfolding migrateIn_def m Let_def
    by (auto split: prod.splits option.splits if_splits)
  then have d: "k \<in> datas \<longleftrightarrow> k \<in> candidateKeys \<and> migrateIn_moves ?p1 ?p2 ?l ?c (enc k)"
    by auto
  show ?thesis
  proof (cases "k \<in> candidateKeys")
    case False
    with d show ?thesis by simp
  next
    case True
    with ring(3) have pk: "onRing (enc k)" by blast
    show ?thesis
    proof (cases ?p1)
      case True
      with one_wrap have "\<not> ?p2" by simp
      with True d \<open>k \<in> candidateKeys\<close> migrateIn_moves_wrap [OF ring(2) ring(1) pk True]
      show ?thesis by simp
    next
      case False
      show ?thesis
      proof (cases ?p2)
        case True
        with False d \<open>k \<in> candidateKeys\<close> migrateIn_moves_next_wraps [OF ring(2) ring(1) pk]
        show ?thesis by simp
      next
        case p2: False
        with False d \<open>k \<in> candidateKeys\<close> migrateIn_moves_plain [of lastScore cur "enc k"]
        show ?thesis by simp
      qed
    qed
  qed
qed

theorem migrateIn_move_set_witness:
  "migrateIn memRing lengthEncryptor (Some nopMigrator) 15 ''A'' ringWrap =
     (Inr (''B'', ''A'', {''k'', ''a key with a length of 24''}),
      ringWrap\<lparr>dataKeysOf := [(''B'', {''a key of length 18''}),
                                (''A'', {''k'', ''a key with a length of 24''})]\<rparr>)
   \<and> Floor memRing ringWrap (decrScore 15) = Inr 20
   \<and> Ceiling memRing ringWrap (incrScore 15) = Inr 20
   \<and> (15 :: int32) <s 20
   \<and> (''k'' \<in> {''k'', ''a key with a length of 24''}
        \<longleftrightarrow> 20 <s lengthEncryptor ''k'' \<or> lengthEncryptor ''k'' \<le>s 15)
   \<and> (''a key of length 18'' \<in> {''k'', ''a key with a length of 24''}
        \<longleftrightarrow> 20 <s lengthEncryptor ''a key of length 18'' \<or> lengthEncryptor ''a key of length 18'' \<le>s 15)"
proof -
  let ?ks = "{''k'', ''a key of length 18'', ''a key with a length of 24''}"
  let ?s' = "ringWrap\<lparr>dataKeysOf := [(''B'', {''a key of length 18''}),
                                (''A'', {''k'', ''a key with a length of 24''})]\<rparr>"
  have run: "migrateIn memRing lengthEncryptor (Some nopMigrator) 15 ''A'' ringWrap =
     (Inr (''B'', ''A'', {''k'', ''a key with a length of 24''}), ?s')"
    by code_simp
  have h: "Some nopMigrator \<noteq> None" "Node memRing ringWrap 15 = Inr [''%!d(string=A)_0'']"
    "length [''%!d(string=A)_0''] \<le> 1"
    "Floor memRing ringWrap (decrScore 15) = Inr 20" "(20 :: int32) \<noteq> - 1" "(20 :: int32) \<noteq> 15"
    "Ceiling memRing ringWrap (incrScore 15) = Inr 20" "(20 :: int32) \<noteq> - 1" "(20 :: int32) \<noteq> 15"
    "Node memRing ringWrap 20 = Inr [''B_0'']" "[''B_0''] \<noteq> []"
    "getNodeID ([''B_0''] ! 0) = Inr ''B''" "DataKeys memRing ringWrap ''B'' = Inr ?ks"
    by code_simp+
  have r: "onRing 15" "onRing 20" "\<forall>k \<in> ?ks. onRing (lengthEncryptor k)"
    by code_simp+
  have w: "(15 :: int32) <s 20 \<longrightarrow> \<not> (20 :: int32) <s 15" by code_simp
  have lt: "(15 :: int32) <s 20" by code_simp
  note T = migrateIn_move_set [OF run h r w]
  from T [of "''k''"] lt have k1: "''k'' \<in> {''k'', ''a key with a length of 24''}
        \<longleftrightarrow> 20 <s lengthEncryptor ''k'' \<or> lengthEncryptor ''k'' \<le>s 15"
    by simp
  from T [of "''a key of length 18''"] lt
  have k2: "''a key of length 18'' \<in> {''k'', ''a key with a length of 24''}
        \<longleftrightarrow> 20 <s lengthEncryptor ''a key of length 18'' \<or> lengthEncryptor ''a key of length 18'' \<le>s 15"
    by simp
  from run h(4) h(7) lt k1 k2 show ?thesis by blast
qed

section \<open>The walk to the next node\<close>

text \<open>
  C9. The comment above \<^verbatim>\<open>getvaildNextNode\<close> says that the successor must not be the same
  real node as the node to delete, and the claim that the entry returned differs from
  the victim. The code compares only the head of the next bucket with the victim: when
  the head is the victim's and the bucket has a second entry, the real id of that entry
  is returned without being compared. So whenever the next bucket clockwise, not yet
  visited, holds two keys of the victim in its first two places, the walk returns the
  victim itself.
\<close>

theorem getvaildNextNode_returns_victim:
  assumes "Ceiling hr s (incrScore score) = Inr n" and "n \<noteq> - 1" and "n \<notin> ranged"
    and "Node hr s n = Inr l" and "1 < length l"
    and "getNodeID (l ! 0) = Inr victim" and "getNodeID (l ! 1) = Inr victim"
  shows "getvaildNextNode hr score victim ranged s = Inr victim"
  using assms by (subst getvaildNextNode.simps) auto

text \<open>
  On a ring where \<open>A\<close> has the bucket at \<open>15\<close> and both keys of the bucket at \<open>20\<close>, and
  \<open>B\<close> the bucket at \<open>30\<close>, the walk from \<open>15\<close> for the victim \<open>A\<close> returns \<open>A\<close>, and
  \<^verbatim>\<open>migrateOut\<close> plans to move the key \<open>k\<close> from \<open>A\<close> to \<open>A\<close>.
\<close>

theorem getvaildNextNode_returns_victim_witness:
  "Ceiling memRing ringTwin (incrScore 15) = Inr 20 \<and> (20 :: int32) \<noteq> - 1 \<and> 20 \<notin> ({} :: int32 set)
   \<and> Node memRing ringTwin 20 = Inr [''A_1'', ''A_2''] \<and> 1 < length [''A_1'', ''A_2'']
   \<and> getNodeID ([''A_1'', ''A_2''] ! 0) = Inr ''A'' \<and> getNodeID ([''A_1'', ''A_2''] ! 1) = Inr ''A''
   \<and> getvaildNextNode memRing 15 ''A'' {} ringTwin = Inr ''A''
   \<and> fst (migrateOut memRing lengthEncryptor (Some nopMigrator) 15 ''A'' ringTwin) =
       Inr (''A'', ''A'', {''k''})"
proof -
  have c: "Ceiling memRing ringTwin (incrScore 15) = Inr 20" by code_simp
  have n: "Node memRing ringTwin 20 = Inr [''A_1'', ''A_2'']" by code_simp
  have g: "getNodeID ([''A_1'', ''A_2''] ! 0) = Inr ''A''"
    "getNodeID ([''A_1'', ''A_2''] ! 1) = Inr ''A''" by code_simp+
  have m: "fst (migrateOut memRing lengthEncryptor (Some nopMigrator) 15 ''A'' ringTwin) =
       Inr (''A'', ''A'', {''k''})" by code_simp
  from getvaildNextNode_returns_victim [OF c _ _ n _ g]
  have "getvaildNextNode memRing 15 ''A'' {} ringTwin = Inr ''A''" by simp
  with c n g m show ?thesis by simp
qed

text \<open>
  The walk itself is a total function: its recursion terminates for every store, score,
  victim and visited set, because each call but the first adds a score to the visited
  set that was not in it, and there are finitely many scores. On a readable ring state
  the code returns a string \<open>r\<close>, computed as follows. The walk skips the buckets that
  hold only the victim's key, up to a score \<open>m\<close> with visited set \<open>R\<close>; let \<open>n\<close> be the
  next bucket clockwise. If there is none (\<open>n = -1\<close>) or \<open>n\<close> has been visited, \<open>r\<close> is
  empty. Otherwise \<open>r\<close> is the real id of the head of \<open>n\<close> when that is not the victim,
  and the real id of the second entry of \<open>n\<close> when the head is the victim's.
\<close>

lemma getvaildNextNode_walk:
  assumes "readable hr s"
  shows "\<exists>r m R n.
           getvaildNextNode hr score victim ranged s = Inr r
         \<and> (skip hr s victim)\<^sup>*\<^sup>* (score, ranged) (m, R)
         \<and> Ceiling hr s (incrScore m) = Inr n
         \<and> (if n = - 1 \<or> n \<in> R then r = ''''
             else \<exists>l. Node hr s n = Inr l \<and> l \<noteq> []
                  \<and> (if getNodeID (l ! 0) \<noteq> Inr victim then getNodeID (l ! 0) = Inr r
                      else 1 < length l \<and> getNodeID (l ! 1) = Inr r))"
  using assms
proof (induction hr score victim ranged s rule: getvaildNextNode.induct)
  case (1 hr score nodeID ranged s)
  from "1.prems" obtain n where c: "Ceiling hr s (incrScore score) = Inr n"
    unfolding readable_def by blast
  show ?case
  proof (cases "n = - 1 \<or> n \<in> ranged")
    case True
    with c have "getvaildNextNode hr score nodeID ranged s = Inr ''''"
      by (subst getvaildNextNode.simps) auto
    with c True show ?thesis
      by (intro exI [of _ "[]"] exI [of _ score] exI [of _ ranged] exI [of _ n]) auto
  next
    case False
    with "1.prems" c obtain l where l: "Node hr s n = Inr l" "l \<noteq> []"
      "\<forall>k \<in> set l. \<exists>id. getNodeID k = Inr id"
      unfolding readable_def by blast
    then obtain h where h: "getNodeID (l ! 0) = Inr h"
      by (metis length_greater_0_conv nth_mem)
    show ?thesis
    proof (cases "h \<noteq> nodeID")
      case True
      with c False l h have "getvaildNextNode hr score nodeID ranged s = Inr h"
        by (subst getvaildNextNode.simps) auto
      with c False l h True show ?thesis
        by (intro exI [of _ h] exI [of _ score] exI [of _ ranged] exI [of _ n]) auto
    next
      case same: False
      show ?thesis
      proof (cases "1 < length l")
        case True
        with l obtain h2 where h2: "getNodeID (l ! 1) = Inr h2" by (metis nth_mem)
        with c False l h same True have "getvaildNextNode hr score nodeID ranged s = Inr h2"
          by (subst getvaildNextNode.simps) auto
        with c False l h same True h2 show ?thesis
          by (intro exI [of _ h2] exI [of _ score] exI [of _ ranged] exI [of _ n]) auto
      next
        case short: False
        with l obtain k where k: "l = [k]" by (cases l) auto
        have eq: "getvaildNextNode hr score nodeID ranged s =
                  getvaildNextNode hr n nodeID (insert score ranged) s"
          using c False l h same short by (subst getvaildNextNode.simps) auto
        have st: "skip hr s nodeID (score, ranged) (n, insert score ranged)"
          using c False l k h same by (simp add: skip_def)
        from "1.IH" [OF c _ _ l(1) _ h _ _ "1.prems"] False l same short
        obtain r m R n' where ih:
          "getvaildNextNode hr n nodeID (insert score ranged) s = Inr r"
          "(skip hr s nodeID)\<^sup>*\<^sup>* (n, insert score ranged) (m, R)"
          "Ceiling hr s (incrScore m) = Inr n'"
          "if n' = - 1 \<or> n' \<in> R then r = ''''
             else \<exists>l. Node hr s n' = Inr l \<and> l \<noteq> []
                  \<and> (if getNodeID (l ! 0) \<noteq> Inr nodeID then getNodeID (l ! 0) = Inr r
                      else 1 < length l \<and> getNodeID (l ! 1) = Inr r)"
          by auto
        from st ih(2) have "(skip hr s nodeID)\<^sup>*\<^sup>* (score, ranged) (m, R)"
          by (rule converse_rtranclp_into_rtranclp)
        with eq ih show ?thesis
          by (intro exI [of _ r] exI [of _ m] exI [of _ R] exI [of _ n']) simp
      qed
    qed
  qed
qed


lemma readable_ringAB: "readable memRing ringAB"
  unfolding readable_def
  by (auto simp: memRing_def mem_Ceiling_def mem_Node_def ringAB_def smin_def Let_def
        getNodeID_def)

lemma readable_ringOnlyA: "readable memRing ringOnlyA"
  unfolding readable_def
  by (auto simp: memRing_def mem_Ceiling_def mem_Node_def ringOnlyA_def smin_def Let_def
        getNodeID_def)

lemma getvaildNextNode_walk_examples:
  "readable memRing ringAB \<and> getvaildNextNode memRing 15 ''A'' {} ringAB = Inr ''B''
   \<and> readable memRing ringOnlyA \<and> getvaildNextNode memRing 15 ''A'' {} ringOnlyA = Inr ''''"
proof -
  have "getvaildNextNode memRing 15 ''A'' {} ringAB = Inr ''B''" by code_simp
  moreover have "getvaildNextNode memRing 15 ''A'' {} ringOnlyA = Inr ''''" by code_simp
  ultimately show ?thesis using readable_ringAB readable_ringOnlyA by simp
qed

section \<open>Removing the last node\<close>

text \<open>
  The claim C2 as stated, on the in-memory store: node \<open>A\<close> is added to the empty ring
  with weight one and resolves the data key \<open>k\<close>; then \<^verbatim>\<open>RemoveNode\<close> of \<open>A\<close> returns
  \<^verbatim>\<open>nil\<close>, without a migrator (the planner returns at once) and with one (the head of
  the bucket is the raw key, whose stripped id is not \<open>A\<close>).
\<close>

theorem RemoveNode_last_node_counterexample:
  "fst (AddNode memRing lengthEncryptor None unitOptions ''A'' 1 emptyMemory) = Returns None
   \<and> GetNode memRing lengthEncryptor unitOptions ''k''
         (snd (AddNode memRing lengthEncryptor None unitOptions ''A'' 1 emptyMemory))
       = (Inr ''%!d(string=A)_0'', ringAowning)
   \<and> fst (RemoveNode memRing lengthEncryptor None unitOptions ''A'' ringAowning) = Returns None
   \<and> fst (RemoveNode memRing lengthEncryptor (Some nopMigrator) unitOptions ''A'' ringAowning)
       = Returns None"
  by code_simp

text \<open>
  C2, amended. With a migrator registered, let the bucket at the score of the node's
  first virtual node hold a single key whose real id is the node, let the node own at
  least one data key, and let the ring have no other score. Then \<^verbatim>\<open>RemoveNode\<close> returns
  the error \<^verbatim>\<open>no other no\<close>; the store is left as it was right after the replica entry
  had been deleted (and unlocked): \<^verbatim>\<open>Rem\<close> has not been called, the bucket is still on
  the ring.
\<close>

theorem RemoveNode_last_node:
  assumes "migrator \<noteq> None"
    and "Lock hr s (lockExpireSeconds opts) = (None, s1)"
    and "Nodes hr s1 = Inr nodes" and "nodes nodeID = Some n" and "0 < n"
    and "DeleteNodeToReplica hr s1 nodeID = (None, s2)"
    and "Node hr s2 (enc (Sprintf_d_d nodeID 0)) = Inr [k]" and "getNodeID k = Inr nodeID"
    and "DataKeys hr s2 nodeID = Inr ks" and "ks \<noteq> {}"
    and "Floor hr s2 (decrScore (enc (Sprintf_d_d nodeID 0))) = Inr lastScore"
    and "lastScore = - 1 \<or> lastScore = enc (Sprintf_d_d nodeID 0)"
  shows "RemoveNode hr enc migrator opts nodeID s =
           (Returns (Some (Error ''no other no'')), snd (Unlock hr s2))"
proof -
  from assms(1) obtain m where m: "migrator = Some m" by auto
  have body: "migrateOut_body hr enc (enc (Sprintf_d_d nodeID 0)) nodeID s2 =
          (nodeID, '''', {}, Some (Error ''no other no''))"
    using assms(7-12) by (auto simp: migrateOut_body_def)
  then have mo: "migrateOut hr enc migrator (enc (Sprintf_d_d nodeID 0)) nodeID s2 =
          (Inl (Error ''no other no''), s2)"
    by (simp add: migrateOut_def m)
  from assms(5) obtain n' where n': "nat n = Suc n'" by (cases "nat n") auto
  have "RemoveNode_loop hr enc migrator nodeID 0 (nat n) [] s2 = (Inl (Error ''no other no''), s2)"
    unfolding n' using mo by simp
  then have "RemoveNode_locked hr enc migrator nodeID s1 = (Returns (Some (Error ''no other no'')), s2)"
    using assms(3,4,6) by (simp add: RemoveNode_locked_def)
  then show ?thesis
    using assms(2) by (simp add: RemoveNode_def with_lock_def)
qed

theorem RemoveNode_last_node_witness:
  "RemoveNode memRing lengthEncryptor (Some nopMigrator) unitOptions ''A'' ringSingle =
     (Returns (Some (Error ''no other no'')), ringSingle\<lparr>replicaCounts := []\<rparr>)
   \<and> fst (GetNode memRing lengthEncryptor unitOptions ''k'' (ringSingle\<lparr>replicaCounts := []\<rparr>))
       = Inr ''A_0''"
proof -
  let ?s1 = "ringSingle\<lparr>locked := True\<rparr>"
  let ?s2 = "ringSingle\<lparr>locked := True, replicaCounts := []\<rparr>"
  have h1: "Some nopMigrator \<noteq> None"
    "Lock memRing ringSingle (lockExpireSeconds unitOptions) = (None, ?s1)"
    by code_simp+
  have h2: "Nodes memRing ?s1 = Inr (map_of [(''A'', 1)])"
    by (simp add: memRing_def ringSingle_def)
  have h3: "map_of [(''A'', 1 :: int)] ''A'' = Some 1" "0 < (1 :: int)"
    "DeleteNodeToReplica memRing ?s1 ''A'' = (None, ?s2)"
    "Node memRing ?s2 (lengthEncryptor (Sprintf_d_d ''A'' 0)) = Inr [''A_0'']"
    "getNodeID ''A_0'' = Inr ''A''"
    "DataKeys memRing ?s2 ''A'' = Inr {''k''}" "{''k''} \<noteq> ({} :: string set)"
    "Floor memRing ?s2 (decrScore (lengthEncryptor (Sprintf_d_d ''A'' 0))) = Inr 15"
    "(15 :: int32) = - 1 \<or> 15 = lengthEncryptor (Sprintf_d_d ''A'' 0)"
    by code_simp+
  have u: "snd (Unlock memRing ?s2) = ringSingle\<lparr>replicaCounts := []\<rparr>" by code_simp
  have g: "fst (GetNode memRing lengthEncryptor unitOptions ''k'' (ringSingle\<lparr>replicaCounts := []\<rparr>))
       = Inr ''A_0''" by code_simp
  from RemoveNode_last_node [where hr = memRing and enc = lengthEncryptor and nodeID = "''A''"
      and nodes = "map_of [(''A'', 1)]" and n = 1 and opts = unitOptions and s = ringSingle
      and migrator = "Some nopMigrator" and ?s1.0 = ?s1 and ?s2.0 = ?s2 and k = "''A_0''"
      and ks = "{''k''}" and lastScore = 15, OF h1 h2 h3] u g
  show ?thesis by simp
qed

section \<open>Ownership entries that do not exist\<close>










end
